theory Spec2Isabelle
  imports Complex_Main "HOL-Library.Word"
begin

section \<open>JavaScript values\<close>

text \<open>
  A JavaScript string is a sequence of UTF-16 code units.  String literals of the
  source are written with \<open>js\<close>; the speaker emoji U+1F50A is the surrogate pair
  \<open>D83D DD0A\<close>.
\<close>

type_synonym jsstring = "16 word list"

definition js :: "string \<Rightarrow> jsstring" where
  "js cs = map (\<lambda>c. of_nat (of_char c)) cs"

text \<open>Truthiness of a value of type \<open>string | null | undefined\<close>: only a non-empty string is truthy.\<close>

definition truthy :: "jsstring option \<Rightarrow> bool" where
  "truthy v = (case v of None \<Rightarrow> False | Some x \<Rightarrow> x \<noteq> [])"

text \<open>\<open>v || d\<close> on such a value.\<close>

definition or_else :: "jsstring option \<Rightarrow> jsstring \<Rightarrow> jsstring" where
  "or_else v d = (case v of None \<Rightarrow> d | Some x \<Rightarrow> if x = [] then d else x)"

text \<open>\<open>String.prototype.trim\<close> removes WhiteSpace and LineTerminator code units at both ends.\<close>

definition is_js_whitespace :: "16 word \<Rightarrow> bool" where
  "is_js_whitespace c \<longleftrightarrow>
     c \<in> {0x9, 0xA, 0xB, 0xC, 0xD, 0x20, 0xA0, 0x1680, 0x2028, 0x2029, 0x202F, 0x205F, 0x3000, 0xFEFF}
     \<or> (0x2000 \<le> c \<and> c \<le> 0x200A)"

definition trim :: "jsstring \<Rightarrow> jsstring" where
  "trim s = rev (dropWhile is_js_whitespace (rev (dropWhile is_js_whitespace s)))"

text \<open>\<open>Number.prototype.toString\<close> on the integer values \<open>Date.now()\<close> returns.\<close>

definition digit_unit :: "nat \<Rightarrow> 16 word" where
  "digit_unit d = of_nat (48 + d)"

function decimal :: "nat \<Rightarrow> jsstring" where
  "decimal n = (if n < 10 then [digit_unit n] else decimal (n div 10) @ [digit_unit (n mod 10)])"
  by pat_completeness auto
termination
  by (relation "measure (\<lambda>n. n)") auto

declare decimal.simps [simp del]

definition toString :: "int \<Rightarrow> jsstring" where
  "toString i = (if i < 0 then 0x2D # decimal (nat (- i)) else decimal (nat i))"

text \<open>
  Where the platform takes a string as text (a \<open>USVString\<close>), the code units are read as
  Unicode scalar values: a high surrogate followed by a low surrogate is one code point
  above U+FFFF, any other surrogate is replaced by U+FFFD.
\<close>

definition is_high_surrogate :: "16 word \<Rightarrow> bool" where
  "is_high_surrogate c \<longleftrightarrow> 0xD800 \<le> unat c \<and> unat c \<le> 0xDBFF"

definition is_low_surrogate :: "16 word \<Rightarrow> bool" where
  "is_low_surrogate c \<longleftrightarrow> 0xDC00 \<le> unat c \<and> unat c \<le> 0xDFFF"

fun to_scalars :: "jsstring \<Rightarrow> nat list" where
  "to_scalars [] = []"
| "to_scalars [c] = [if is_high_surrogate c \<or> is_low_surrogate c then 0xFFFD else unat c]"
| "to_scalars (c # d # cs) =
     (if is_high_surrogate c \<and> is_low_surrogate d
      then (0x10000 + (unat c - 0xD800) * 0x400 + (unat d - 0xDC00)) # to_scalars cs
      else (if is_high_surrogate c \<or> is_low_surrogate c then 0xFFFD else unat c) # to_scalars (d # cs))"

text \<open>The UTF-8 encoding of scalar values, as bytes.\<close>

definition utf8_encode_scalar :: "nat \<Rightarrow> 8 word list" where
  "utf8_encode_scalar cp =
     (if cp < 0x80 then [of_nat cp]
      else if cp < 0x800 then [of_nat (0xC0 + cp div 0x40), of_nat (0x80 + cp mod 0x40)]
      else if cp < 0x10000 then
        [of_nat (0xE0 + cp div 0x1000), of_nat (0x80 + cp div 0x40 mod 0x40), of_nat (0x80 + cp mod 0x40)]
      else
        [of_nat (0xF0 + cp div 0x40000), of_nat (0x80 + cp div 0x1000 mod 0x40),
         of_nat (0x80 + cp div 0x40 mod 0x40), of_nat (0x80 + cp mod 0x40)])"

definition utf8_encode :: "nat list \<Rightarrow> 8 word list" where
  "utf8_encode cps = concat (map utf8_encode_scalar cps)"

text \<open>A caught exception value; only its \<open>message\<close> property is read.\<close>

record js_error =
  message :: "jsstring option"

text \<open>
  One pair of clock readings: the value of \<open>Date.now()\<close> and of \<open>new Date()\<close> at the
  moment an object literal \<open>{ id: Date.now()..., timestamp: new Date() }\<close> is evaluated.
\<close>

record clock_reading =
  date_now :: int
  new_date :: int


section \<open>The browser objects the components hold\<close>

type_synonym track_id = nat
type_synonym source_id = nat
type_synonym ctx_id = nat
type_synonym interval_id = nat
type_synonym session_id = nat

text \<open>A \<open>MediaStream\<close>: \<open>getTracks()\<close> is the audio tracks followed by the video tracks.\<close>

record media_stream =
  audio_tracks :: "track_id list"
  video_tracks :: "track_id list"

definition getTracks :: "media_stream \<Rightarrow> track_id list" where
  "getTracks ms = audio_tracks ms @ video_tracks ms"

datatype ctx_state = Suspended | Running | Closed

text \<open>
  One call \<open>source.start(when)\<close> of an \<open>AudioBufferSourceNode\<close> and its buffer's duration.
  Times are JavaScript numbers, taken here as real numbers; what is proved about them
  rests on their order and on the end of a chunk being the sum the cursor is set to.
\<close>

record scheduled_source =
  node :: source_id
  start_time :: real
  buffer_duration :: real

text \<open>
  The objects behind the refs are shared and mutable, so they live in a store:
  the tracks and source nodes on which \<open>stop()\<close> has been called, the timers
  \<open>window.setInterval\<close> has running, the \<open>state\<close> of every \<open>AudioContext\<close>, the calls
  of \<open>close()\<close> and of \<open>start()\<close> in the order they were made.
\<close>

record browser =
  ended_tracks :: "track_id set"
  stopped_sources :: "source_id set"
  timers :: "interval_id set"
  ctx_status :: "ctx_id \<Rightarrow> ctx_state"
  close_calls :: "ctx_id list"
  started :: "scheduled_source list"

definition stop_tracks :: "media_stream \<Rightarrow> 'a browser_scheme \<Rightarrow> 'a browser_scheme" where
  "stop_tracks ms b = b\<lparr>ended_tracks := ended_tracks b \<union> set (getTracks ms)\<rparr>"

definition clearInterval :: "interval_id \<Rightarrow> 'a browser_scheme \<Rightarrow> 'a browser_scheme" where
  "clearInterval i b = b\<lparr>timers := timers b - {i}\<rparr>"

definition setInterval :: "interval_id \<Rightarrow> 'a browser_scheme \<Rightarrow> 'a browser_scheme" where
  "setInterval i b = b\<lparr>timers := insert i (timers b)\<rparr>"

text \<open>A new \<open>AudioContext\<close> starts out suspended.\<close>

definition new_AudioContext :: "ctx_id \<Rightarrow> 'a browser_scheme \<Rightarrow> 'a browser_scheme" where
  "new_AudioContext c b = b\<lparr>ctx_status := (ctx_status b)(c := Suspended)\<rparr>"

text \<open>
  \<open>AudioContext.close()\<close> sets the state the \<open>state\<close> attribute reads to \<open>closed\<close>
  before it returns its promise (Web Audio API, the control thread state).
\<close>

definition ctx_close :: "ctx_id \<Rightarrow> 'a browser_scheme \<Rightarrow> 'a browser_scheme" where
  "ctx_close c b = b\<lparr>ctx_status := (ctx_status b)(c := Closed), close_calls := close_calls b @ [c]\<rparr>"


section \<open>The refs both components declare\<close>

text \<open>
  \<open>LiveCoach\<close> and \<open>SetupAssistant\<close> declare the same refs and the same
  \<open>isScreenSharing\<close> state under the same names.  React state that is set with a plain
  value is modelled by the value it has from the next render on.
\<close>

record live_refs = browser +
  streamRef :: "media_stream option"
  screenStreamRef :: "media_stream option"
  audioContextRef :: "ctx_id option"
  inputContextRef :: "ctx_id option"
  nextStartTimeRef :: real
  sessionRef :: "session_id option"
  frameIntervalRef :: "interval_id option"
  sourcesRef :: "source_id set"
  isScreenSharing :: bool

text \<open>
  The first four blocks of \<open>stopSession\<close> and of \<open>stopLiveSession\<close> are the same
  statements.  \<open>if (frameIntervalRef.current)\<close> is a truthiness test on
  \<open>number | null\<close>: the handle 0 does not pass it.
\<close>

definition clear_frame_interval :: "'a live_refs_scheme \<Rightarrow> 'a live_refs_scheme" where
  "clear_frame_interval s =
     (case frameIntervalRef s of
        None \<Rightarrow> s
      | Some i \<Rightarrow> if i \<noteq> 0 then (clearInterval i s)\<lparr>frameIntervalRef := None\<rparr> else s)"

definition stop_mic_stream :: "'a live_refs_scheme \<Rightarrow> 'a live_refs_scheme" where
  "stop_mic_stream s =
     (case streamRef s of
        None \<Rightarrow> s
      | Some ms \<Rightarrow> (stop_tracks ms s)\<lparr>streamRef := None\<rparr>)"

definition stop_screen_stream :: "'a live_refs_scheme \<Rightarrow> 'a live_refs_scheme" where
  "stop_screen_stream s =
     (case screenStreamRef s of
        None \<Rightarrow> s
      | Some ms \<Rightarrow> (stop_tracks ms s)\<lparr>screenStreamRef := None\<rparr>)"

text \<open>\<open>sourcesRef.current.forEach(s => s.stop()); sourcesRef.current.clear()\<close>\<close>

definition stop_sources :: "'a live_refs_scheme \<Rightarrow> 'a live_refs_scheme" where
  "stop_sources s = s\<lparr>stopped_sources := stopped_sources s \<union> sourcesRef s, sourcesRef := {}\<rparr>"

text \<open>
  A message of the live session, reduced to the fields the handlers read:
  \<open>serverContent?.modelTurn?.parts?.[0]?.inlineData?.data\<close>,
  \<open>serverContent?.interrupted\<close>, \<open>serverContent?.outputTranscription?.text\<close>,
  \<open>serverContent?.turnComplete\<close> and \<open>toolCall.functionCalls\<close>.
\<close>

record function_call =
  fc_name :: jsstring
  fc_id :: "jsstring option"
  args_filename :: jsstring
  args_content :: jsstring

record server_message =
  base64Audio :: "jsstring option"
  interrupted :: bool
  transcriptPart :: "jsstring option"
  turnComplete :: bool
  toolCall :: "function_call list option"

text \<open>
  The audio block of \<open>onmessage\<close>, the same statements in both components.
  \<open>decodeAudioData\<close> and \<open>base64ToUint8Array\<close> belong to \<open>services/audioUtils\<close>,
  which is not among the sources: the duration of the buffer they decode is the
  parameter \<open>duration_of\<close>.  \<open>currentTime\<close> is \<open>outputCtx.currentTime\<close> when the message
  is handled and \<open>src\<close> the node \<open>createBufferSource()\<close> returns.  The handler
  is taken to run to its end before the next event is handled: the promise it awaits
  is that of a local computation.
\<close>

definition schedule_audio ::
  "(jsstring \<Rightarrow> real) \<Rightarrow> real \<Rightarrow> source_id \<Rightarrow> server_message \<Rightarrow> 'a live_refs_scheme \<Rightarrow> 'a live_refs_scheme" where
  "schedule_audio duration_of currentTime src m s =
     (case base64Audio m of
        None \<Rightarrow> s
      | Some data \<Rightarrow>
          if data = [] then s
          else
            let s1 = s\<lparr>nextStartTimeRef := max (nextStartTimeRef s) currentTime\<rparr>;
                d = duration_of data;
                s2 = s1\<lparr>started := started s1 @
                        [\<lparr>node = src, start_time = nextStartTimeRef s1, buffer_duration = d\<rparr>]\<rparr>;
                s3 = s2\<lparr>nextStartTimeRef := nextStartTimeRef s2 + d\<rparr>
            in s3\<lparr>sourcesRef := insert src (sourcesRef s3)\<rparr>)"

text \<open>The listener \<open>source.addEventListener('ended', ...)\<close> registers.\<close>

definition source_ended :: "source_id \<Rightarrow> 'a live_refs_scheme \<Rightarrow> 'a live_refs_scheme" where
  "source_ended src s = s\<lparr>sourcesRef := sourcesRef s - {src}\<rparr>"

text \<open>The \<open>onended\<close> handler of the shared screen's video track, the same in both components.\<close>

definition screen_track_ended :: "'a live_refs_scheme \<Rightarrow> 'a live_refs_scheme" where
  "screen_track_ended s =
     (let s1 = s\<lparr>isScreenSharing := False\<rparr>
      in case frameIntervalRef s1 of
           None \<Rightarrow> s1
         | Some i \<Rightarrow> if i \<noteq> 0 then clearInterval i s1 else s1)"

text \<open>What the environment answers to \<open>startSession\<close> and to \<open>startScreenShare\<close>.\<close>

record start_env =
  new_inputCtx :: ctx_id
  new_outputCtx :: ctx_id
  getUserMedia :: "js_error + media_stream"
  connect :: "js_error + session_id"

record share_env =
  getDisplayMedia :: "js_error + media_stream"
  videoRef_present :: bool
  canvasRef_present :: bool
  new_interval :: interval_id
  type_error :: js_error


section \<open>The microphone pipeline\<close>

text \<open>
  \<open>onaudioprocess\<close> closes over \<open>sessionPromise\<close> only.  A callback given to
  \<open>then\<close> runs at once on a fulfilled promise, waits in registration order on a
  pending one and never runs on a rejected one.  \<open>createPcmBlob\<close> belongs to
  \<open>services/audioUtils\<close> and is a parameter.
\<close>

datatype promise_state = Pending | Fulfilled | Rejected

datatype 'b media = PcmBlob 'b | JpegFrame jsstring

record 'b session =
  promise :: promise_state
  waiting :: "'b media list"
  realtime_inputs :: "'b media list"

definition sendRealtimeInput_then :: "'b media \<Rightarrow> 'b session \<Rightarrow> 'b session" where
  "sendRealtimeInput_then x p =
     (case promise p of
        Fulfilled \<Rightarrow> p\<lparr>realtime_inputs := realtime_inputs p @ [x]\<rparr>
      | Pending \<Rightarrow> p\<lparr>waiting := waiting p @ [x]\<rparr>
      | Rejected \<Rightarrow> p)"

definition fulfil :: "'b session \<Rightarrow> 'b session" where
  "fulfil p =
     (case promise p of
        Pending \<Rightarrow> p\<lparr>promise := Fulfilled, realtime_inputs := realtime_inputs p @ waiting p, waiting := []\<rparr>
      | _ \<Rightarrow> p)"

text \<open>An \<open>AudioBuffer\<close> is its channels; \<open>getChannelData\<close> throws on a channel it does not have.\<close>

type_synonym 'a audio_buffer = "'a list list"

definition getChannelData :: "'a audio_buffer \<Rightarrow> nat \<Rightarrow> 'a list option" where
  "getChannelData buf c = (if c < length buf then Some (buf ! c) else None)"

definition onaudioprocess :: "('a list \<Rightarrow> 'b) \<Rightarrow> 'a audio_buffer \<Rightarrow> 'b session \<Rightarrow> 'b session" where
  "onaudioprocess createPcmBlob inputBuffer p =
     (case getChannelData inputBuffer 0 of
        None \<Rightarrow> p
      | Some inputData \<Rightarrow> sendRealtimeInput_then (PcmBlob (createPcmBlob inputData)) p)"

text \<open>The interval callback of \<open>startScreenShare\<close>; \<open>ready\<close> is its guard, \<open>base64\<close> the frame.\<close>

definition capture_frame :: "bool \<Rightarrow> jsstring \<Rightarrow> 'b session \<Rightarrow> 'b session" where
  "capture_frame ready base64 p = (if ready then sendRealtimeInput_then (JpegFrame base64) p else p)"


section \<open>LiveCoach\<close>

record lc_state = live_refs +
  isActive :: bool
  error :: "jsstring option"
  status :: jsstring

definition lc_close_contexts :: "lc_state \<Rightarrow> lc_state" where
  "lc_close_contexts s =
     (let s1 = (case audioContextRef s of
                  None \<Rightarrow> s
                | Some c \<Rightarrow> (if ctx_status s c \<noteq> Closed then ctx_close c s else s)\<lparr>audioContextRef := None\<rparr>)
      in case inputContextRef s1 of
           None \<Rightarrow> s1
         | Some c \<Rightarrow> (if ctx_status s1 c \<noteq> Closed then ctx_close c s1 else s1)\<lparr>inputContextRef := None\<rparr>)"

definition lc_stopSession :: "lc_state \<Rightarrow> lc_state" where
  "lc_stopSession s =
     (let s1 = clear_frame_interval s;
          s2 = stop_mic_stream s1;
          s3 = stop_screen_stream s2;
          s4 = stop_sources s3;
          s5 = lc_close_contexts s4
      in s5\<lparr>isActive := False, isScreenSharing := False, status := js ''Disconnected''\<rparr>)"

definition lc_startSession :: "start_env \<Rightarrow> lc_state \<Rightarrow> lc_state" where
  "lc_startSession env s =
     (let s1 = s\<lparr>error := None, status := js ''Initializing Audio...''\<rparr>;
          s2 = new_AudioContext (new_outputCtx env) (new_AudioContext (new_inputCtx env) s1);
          s3 = s2\<lparr>inputContextRef := Some (new_inputCtx env),
                  audioContextRef := Some (new_outputCtx env),
                  nextStartTimeRef := 0\<rparr>
      in case getUserMedia env of
           Inl e \<Rightarrow> lc_stopSession (s3\<lparr>error := Some (or_else (message e) (js ''Failed to start session''))\<rparr>)
         | Inr micStream \<Rightarrow>
             (let s4 = s3\<lparr>streamRef := Some micStream, status := js ''Connecting to Gemini Live...''\<rparr>
              in case connect env of
                   Inl e \<Rightarrow> lc_stopSession (s4\<lparr>error := Some (or_else (message e) (js ''Failed to start session''))\<rparr>)
                 | Inr sessionPromise \<Rightarrow> s4\<lparr>sessionRef := Some sessionPromise\<rparr>))"

definition lc_onopen :: "lc_state \<Rightarrow> lc_state" where
  "lc_onopen s = s\<lparr>status := js ''Connected! Listening...'', isActive := True\<rparr>"

definition lc_onmessage :: "(jsstring \<Rightarrow> real) \<Rightarrow> real \<Rightarrow> source_id \<Rightarrow> server_message \<Rightarrow> lc_state \<Rightarrow> lc_state" where
  "lc_onmessage duration_of currentTime src m s =
     (let s1 = schedule_audio duration_of currentTime src m s
      in if interrupted m then (stop_sources s1)\<lparr>nextStartTimeRef := 0\<rparr> else s1)"

definition lc_onclose :: "lc_state \<Rightarrow> lc_state" where
  "lc_onclose s = lc_stopSession (s\<lparr>status := js ''Session Closed''\<rparr>)"

definition lc_onerror :: "lc_state \<Rightarrow> lc_state" where
  "lc_onerror s = lc_stopSession (s\<lparr>error := Some (js ''Connection Error'')\<rparr>)"

definition lc_startScreenShare :: "share_env \<Rightarrow> lc_state \<Rightarrow> lc_state" where
  "lc_startScreenShare env s =
     (case getDisplayMedia env of
        Inl e \<Rightarrow>
          s\<lparr>error := Some (js ''Screen share error: '' @ or_else (message e) (js ''Permission denied or cancelled''))\<rparr>
      | Inr screenStream \<Rightarrow>
          (let s1 = s\<lparr>screenStreamRef := Some screenStream, isScreenSharing := True\<rparr>;
               s2 = (if sessionRef s1 \<noteq> None \<and> canvasRef_present env \<and> videoRef_present env
                     then (setInterval (new_interval env) s1)\<lparr>frameIntervalRef := Some (new_interval env)\<rparr>
                     else s1)
           in case video_tracks screenStream of
                [] \<Rightarrow>
                  s2\<lparr>error := Some (js ''Screen share error: '' @
                                     or_else (message (type_error env)) (js ''Permission denied or cancelled''))\<rparr>
              | _ # _ \<Rightarrow> s2))"


section \<open>SetupAssistant\<close>

datatype role = User | Model

record setup_file =
  filename :: jsstring
  content :: jsstring

record chat_message =
  msg_id :: jsstring
  role :: role
  msg_text :: jsstring
  msg_image :: "jsstring option"
  setupFile :: "setup_file option"
  timestamp :: int

text \<open>
  \<open>setMessages(prev => ...)\<close> hands React an updater function.  React queues it and
  calls it during the next render, on the list the updaters before it produced.
  Whatever the arrow function's body reads, it reads when it is called: the clock
  (\<open>Date.now()\<close>, \<open>new Date()\<close>) and \<open>transcriptBufferRef.current\<close>.  An updater is
  therefore a function of the clock reading and of the ref's value at that moment,
  and of the previous list.
\<close>

type_synonym updater = "clock_reading \<Rightarrow> jsstring \<Rightarrow> chat_message list \<Rightarrow> chat_message list"

record function_response =
  fr_name :: jsstring
  fr_id :: "jsstring option"
  fr_result :: jsstring

record sa_state = live_refs +
  messages :: "chat_message list"
  messageQueue :: "updater list"
  inputText :: jsstring
  selectedImage :: "jsstring option"
  isLoading :: bool
  isLive :: bool
  liveStatus :: jsstring
  currentTranscript :: jsstring
  transcriptBufferRef :: jsstring
  toolResponses :: "function_response list"

definition setMessages :: "updater \<Rightarrow> sa_state \<Rightarrow> sa_state" where
  "setMessages u s = s\<lparr>messageQueue := messageQueue s @ [u]\<rparr>"

text \<open>The successive values of the list while a render runs the queue; \<open>clk k\<close> is the clock at the \<open>k\<close>-th updater.\<close>

fun apply_queue ::
  "(nat \<Rightarrow> clock_reading) \<Rightarrow> jsstring \<Rightarrow> nat \<Rightarrow> updater list \<Rightarrow> chat_message list \<Rightarrow> chat_message list list" where
  "apply_queue clk buf k [] prev = []"
| "apply_queue clk buf k (u # us) prev = u (clk k) buf prev # apply_queue clk buf (Suc k) us (u (clk k) buf prev)"

definition render :: "(nat \<Rightarrow> clock_reading) \<Rightarrow> sa_state \<Rightarrow> sa_state" where
  "render clk s =
     s\<lparr>messages := last (messages s # apply_queue clk (transcriptBufferRef s) 0 (messageQueue s) (messages s)),
        messageQueue := []\<rparr>"

definition speaker :: jsstring where
  "speaker = [0xD83D, 0xDD0A, 0x20]"

text \<open>The object literal \<open>{ id: Date.now().toString(), role: 'model', text, setupFile, timestamp: new Date() }\<close>.\<close>

definition model_message :: "clock_reading \<Rightarrow> jsstring \<Rightarrow> setup_file option \<Rightarrow> chat_message" where
  "model_message rd txt sf =
     \<lparr>msg_id = toString (date_now rd), role = Model, msg_text = txt, msg_image = None,
      setupFile = sf, timestamp = new_date rd\<rparr>"

text \<open>The updaters of the source, one per call of \<open>setMessages\<close>.\<close>

definition append_newMessage :: "chat_message \<Rightarrow> updater" where
  "append_newMessage newMessage = (\<lambda>rd buf prev. prev @ [newMessage])"

definition append_reply :: "jsstring \<Rightarrow> updater" where
  "append_reply txt =
     (\<lambda>rd buf prev. prev @
        [\<lparr>msg_id = toString (date_now rd + 1), role = Model, msg_text = txt, msg_image = None,
          setupFile = None, timestamp = new_date rd\<rparr>])"

definition append_pending_transcript :: updater where
  "append_pending_transcript = (\<lambda>rd buf prev. prev @ [model_message rd (speaker @ buf) None])"

definition append_model_text :: "jsstring \<Rightarrow> updater" where
  "append_model_text txt = (\<lambda>rd buf prev. prev @ [model_message rd txt None])"

definition append_setup :: "setup_file \<Rightarrow> updater" where
  "append_setup sf =
     (\<lambda>rd buf prev. prev @
        [model_message rd (js ''I've generated the setup file for you based on our session.'') (Some sf)])"

text \<open>\<open>setMessages([])\<close> of the clear button: a plain value, which takes its place in the same queue.\<close>

definition clear_chat :: updater where
  "clear_chat = (\<lambda>rd buf prev. [])"

text \<open>
  \<open>handleSendMessage\<close> up to its \<open>await\<close>; \<open>newMessage\<close> is built before \<open>setMessages\<close>,
  at the clock reading \<open>now\<close>.  The request sent to the model is not part of the state.
\<close>

definition sa_handleSendMessage :: "clock_reading \<Rightarrow> sa_state \<Rightarrow> sa_state" where
  "sa_handleSendMessage now s =
     (if (trim (inputText s) = [] \<and> \<not> truthy (selectedImage s)) \<or> isLoading s then s
      else
        let newMessage =
              \<lparr>msg_id = toString (date_now now), role = User, msg_text = inputText s,
               msg_image = (if truthy (selectedImage s) then selectedImage s else None),
               setupFile = None, timestamp = new_date now\<rparr>
        in (setMessages (append_newMessage newMessage) s)
             \<lparr>inputText := [], selectedImage := None, isLoading := True\<rparr>)"

text \<open>The rest of \<open>handleSendMessage\<close>, once \<open>generateContent\<close> has settled with \<open>response.text\<close> or an error.\<close>

definition sa_generateContent_settled :: "js_error + jsstring option \<Rightarrow> sa_state \<Rightarrow> sa_state" where
  "sa_generateContent_settled r s =
     (case r of
        Inr txt \<Rightarrow>
          (setMessages (append_reply (or_else txt (js ''I couldn't generate a response.''))) s)\<lparr>isLoading := False\<rparr>
      | Inl e \<Rightarrow>
          (setMessages (append_reply (js ''Error connecting to the API.'')) s)\<lparr>isLoading := False\<rparr>)"

definition sa_close_contexts :: "sa_state \<Rightarrow> sa_state" where
  "sa_close_contexts s =
     (let s1 = (case audioContextRef s of
                  None \<Rightarrow> s
                | Some c \<Rightarrow> if ctx_status s c \<noteq> Closed then ctx_close c s else s)
      in case inputContextRef s1 of
           None \<Rightarrow> s1
         | Some c \<Rightarrow> if ctx_status s1 c \<noteq> Closed then ctx_close c s1 else s1)"

definition sa_stopLiveSession :: "sa_state \<Rightarrow> sa_state" where
  "sa_stopLiveSession s =
     (let s1 = clear_frame_interval s;
          s2 = stop_mic_stream s1;
          s3 = stop_screen_stream s2;
          s4 = stop_sources s3;
          s5 = sa_close_contexts s4;
          s6 = s5\<lparr>isLive := False, isScreenSharing := False, liveStatus := js ''Ready''\<rparr>
      in if transcriptBufferRef s6 \<noteq> []
         then (setMessages append_pending_transcript s6)\<lparr>transcriptBufferRef := [], currentTranscript := []\<rparr>
         else s6)"

definition sa_startScreenShare :: "share_env \<Rightarrow> sa_state \<Rightarrow> sa_state" where
  "sa_startScreenShare env s =
     (case getDisplayMedia env of
        Inl e \<Rightarrow> setMessages (append_model_text (js ''System: Screen share failed or was cancelled.'')) s
      | Inr screenStream \<Rightarrow>
          (let s1 = s\<lparr>screenStreamRef := Some screenStream, isScreenSharing := True\<rparr>;
               s2 = (if sessionRef s1 \<noteq> None \<and> canvasRef_present env \<and> videoRef_present env
                     then (setInterval (new_interval env) s1)\<lparr>frameIntervalRef := Some (new_interval env)\<rparr>
                     else s1)
           in case video_tracks screenStream of
                [] \<Rightarrow> setMessages (append_model_text (js ''System: Screen share failed or was cancelled.'')) s2
              | _ # _ \<Rightarrow> s2))"

definition sa_startLiveSession :: "start_env \<Rightarrow> sa_state \<Rightarrow> sa_state" where
  "sa_startLiveSession env s =
     (let s1 = s\<lparr>liveStatus := js ''Initializing...''\<rparr>;
          s2 = new_AudioContext (new_outputCtx env) (new_AudioContext (new_inputCtx env) s1);
          s3 = s2\<lparr>inputContextRef := Some (new_inputCtx env),
                  audioContextRef := Some (new_outputCtx env),
                  nextStartTimeRef := 0,
                  transcriptBufferRef := []\<rparr>
      in case getUserMedia env of
           Inl e \<Rightarrow> sa_stopLiveSession (s3\<lparr>liveStatus := js ''Connection Failed''\<rparr>)
         | Inr micStream \<Rightarrow>
             (let s4 = s3\<lparr>streamRef := Some micStream, liveStatus := js ''Connecting...''\<rparr>
              in case connect env of
                   Inl e \<Rightarrow> sa_stopLiveSession (s4\<lparr>liveStatus := js ''Connection Failed''\<rparr>)
                 | Inr sessionPromise \<Rightarrow> s4\<lparr>sessionRef := Some sessionPromise\<rparr>))"

definition sa_onopen :: "sa_state \<Rightarrow> sa_state" where
  "sa_onopen s = s\<lparr>liveStatus := js ''Connected'', isLive := True\<rparr>"

text \<open>Blocks 2, 3 and 4 of \<open>onmessage\<close>.\<close>

definition aggregate_transcript :: "server_message \<Rightarrow> sa_state \<Rightarrow> sa_state" where
  "aggregate_transcript m s =
     (case transcriptPart m of
        None \<Rightarrow> s
      | Some part \<Rightarrow>
          if part = [] then s
          else
            let s1 = s\<lparr>transcriptBufferRef := transcriptBufferRef s @ part\<rparr>
            in s1\<lparr>currentTranscript := transcriptBufferRef s1\<rparr>)"

definition flush_on_turnComplete :: "server_message \<Rightarrow> sa_state \<Rightarrow> sa_state" where
  "flush_on_turnComplete m s =
     (if turnComplete m then
        let fullText = transcriptBufferRef s
        in if trim fullText \<noteq> []
           then (setMessages (append_model_text (speaker @ fullText)) s)
                  \<lparr>transcriptBufferRef := [], currentTranscript := []\<rparr>
           else s
      else s)"

definition handle_function_call :: "function_call \<Rightarrow> sa_state \<Rightarrow> sa_state" where
  "handle_function_call fc s =
     (if fc_name fc = js ''save_setup_json'' then
        let setupFile = \<lparr>filename = args_filename fc, content = args_content fc\<rparr>
        in (setMessages (append_setup setupFile) s)
             \<lparr>toolResponses := toolResponses s @
                [\<lparr>fr_name = fc_name fc, fr_id = fc_id fc,
                  fr_result = js ''File generated successfully and presented to user.''\<rparr>]\<rparr>
      else s)"

definition handle_toolCall :: "server_message \<Rightarrow> sa_state \<Rightarrow> sa_state" where
  "handle_toolCall m s =
     (case toolCall m of
        None \<Rightarrow> s
      | Some functionCalls \<Rightarrow> foldl (\<lambda>s' fc. handle_function_call fc s') s functionCalls)"

definition sa_onmessage :: "(jsstring \<Rightarrow> real) \<Rightarrow> real \<Rightarrow> source_id \<Rightarrow> server_message \<Rightarrow> sa_state \<Rightarrow> sa_state" where
  "sa_onmessage duration_of currentTime src m s =
     handle_toolCall m
       (flush_on_turnComplete m
         (aggregate_transcript m
           (schedule_audio duration_of currentTime src m s)))"

definition sa_onclose :: "sa_state \<Rightarrow> sa_state" where
  "sa_onclose s = sa_stopLiveSession s"

definition sa_onerror :: "sa_state \<Rightarrow> sa_state" where
  "sa_onerror s = sa_stopLiveSession (s\<lparr>liveStatus := js ''Error''\<rparr>)"

text \<open>
  \<open>downloadSetup\<close>: the name it gives the download and the \<open>Blob\<close> it builds.
  \<open>new Blob([content], ...)\<close> takes the string part as text and holds its UTF-8 encoding.
\<close>

record download =
  download_name :: jsstring
  blob_bytes :: "8 word list"
  blob_type :: jsstring

definition downloadSetup :: "jsstring \<Rightarrow> jsstring \<Rightarrow> download" where
  "downloadSetup fname cont =
     \<lparr>download_name = fname, blob_bytes = utf8_encode (to_scalars cont),
      blob_type = js ''application/json''\<rparr>"

text \<open>The download card is rendered for a message with a \<open>setupFile\<close>; this is its \<open>onClick\<close>.\<close>

definition card_onClick :: "chat_message \<Rightarrow> download option" where
  "card_onClick msg =
     (case setupFile msg of
        None \<Rightarrow> None
      | Some sf \<Rightarrow> Some (downloadSetup (filename sf) (content sf)))"

text \<open>Everything that can happen to the component, and the handler each event runs.\<close>

datatype sa_event =
    HandleSendMessage clock_reading
  | GenerateContentSettled "js_error + jsstring option"
  | StopLiveSession
  | StartScreenShare share_env
  | ScreenTrackEnded
  | StartLiveSession start_env
  | OnOpen
  | OnMessage real source_id server_message
  | SourceEnded source_id
  | OnClose
  | OnError
  | ClearChat
  | SetInputText jsstring
  | SetSelectedImage "jsstring option"
  | Render "nat \<Rightarrow> clock_reading"

fun sa_handle :: "(jsstring \<Rightarrow> real) \<Rightarrow> sa_event \<Rightarrow> sa_state \<Rightarrow> sa_state" where
  "sa_handle d (HandleSendMessage now) s = sa_handleSendMessage now s"
| "sa_handle d (GenerateContentSettled r) s = sa_generateContent_settled r s"
| "sa_handle d StopLiveSession s = sa_stopLiveSession s"
| "sa_handle d (StartScreenShare env) s = sa_startScreenShare env s"
| "sa_handle d ScreenTrackEnded s = screen_track_ended s"
| "sa_handle d (StartLiveSession env) s = sa_startLiveSession env s"
| "sa_handle d OnOpen s = sa_onopen s"
| "sa_handle d (OnMessage t src m) s = sa_onmessage d t src m s"
| "sa_handle d (SourceEnded src) s = source_ended src s"
| "sa_handle d OnClose s = sa_onclose s"
| "sa_handle d OnError s = sa_onerror s"
| "sa_handle d ClearChat s = setMessages clear_chat s"
| "sa_handle d (SetInputText t) s = s\<lparr>inputText := t\<rparr>"
| "sa_handle d (SetSelectedImage i) s = s\<lparr>selectedImage := i\<rparr>"
| "sa_handle d (Render clk) s = render clk s"


section \<open>Vocabulary of the properties\<close>

definition tracks_of :: "media_stream option \<Rightarrow> track_id set" where
  "tracks_of r = (case r of None \<Rightarrow> {} | Some ms \<Rightarrow> set (getTracks ms))"

text \<open>The calls of \<open>close()\<close> made between two states.\<close>

definition new_close_calls :: "'a browser_scheme \<Rightarrow> 'b browser_scheme \<Rightarrow> ctx_id list" where
  "new_close_calls s s' = drop (length (close_calls s)) (close_calls s')"

text \<open>
  What a teardown that started in \<open>s\<close> and ended in \<open>s'\<close> has released: the timer, the
  tracks of both streams, the tracked source nodes, both audio contexts.
\<close>

definition media_released :: "'a live_refs_scheme \<Rightarrow> 'b live_refs_scheme \<Rightarrow> bool" where
  "media_released s s' \<longleftrightarrow>
     frameIntervalRef s' = None \<and>
     (\<forall>i. frameIntervalRef s = Some i \<longrightarrow> i \<notin> timers s') \<and>
     streamRef s' = None \<and> tracks_of (streamRef s) \<subseteq> ended_tracks s' \<and>
     screenStreamRef s' = None \<and> tracks_of (screenStreamRef s) \<subseteq> ended_tracks s' \<and>
     sourcesRef s' = {} \<and> sourcesRef s \<subseteq> stopped_sources s' \<and>
     (\<forall>c. audioContextRef s = Some c \<or> inputContextRef s = Some c \<longrightarrow>
        ctx_status s' c = Closed \<and> (c \<in> set (new_close_calls s s') \<longleftrightarrow> ctx_status s c \<noteq> Closed)) \<and>
     \<not> isScreenSharing s'"

text \<open>The contexts on which a teardown calls \<open>close()\<close>, and the states it leaves behind.\<close>

definition to_close :: "'a live_refs_scheme \<Rightarrow> ctx_id list" where
  "to_close s =
     (case audioContextRef s of
        None \<Rightarrow> []
      | Some a \<Rightarrow> if ctx_status s a \<noteq> Closed then [a] else []) @
     (case inputContextRef s of
        None \<Rightarrow> []
      | Some i \<Rightarrow> if ctx_status s i \<noteq> Closed \<and> audioContextRef s \<noteq> Some i then [i] else [])"

definition closed_by_teardown :: "'a live_refs_scheme \<Rightarrow> ctx_id \<Rightarrow> ctx_state" where
  "closed_by_teardown s c =
     (if audioContextRef s = Some c \<or> inputContextRef s = Some c then Closed else ctx_status s c)"

text \<open>A state that holds no media any more.\<close>

definition torn_down :: "'a live_refs_scheme \<Rightarrow> bool" where
  "torn_down s \<longleftrightarrow>
     (frameIntervalRef s = None \<or> frameIntervalRef s = Some 0) \<and>
     streamRef s = None \<and> screenStreamRef s = None \<and> sourcesRef s = {} \<and>
     (\<forall>c. audioContextRef s = Some c \<or> inputContextRef s = Some c \<longrightarrow> ctx_status s c = Closed) \<and>
     \<not> isScreenSharing s"

definition lc_quiet :: "lc_state \<Rightarrow> bool" where
  "lc_quiet s \<longleftrightarrow>
     torn_down s \<and> audioContextRef s = None \<and> inputContextRef s = None \<and>
     \<not> isActive s \<and> status s = js ''Disconnected''"

definition sa_quiet :: "sa_state \<Rightarrow> bool" where
  "sa_quiet s \<longleftrightarrow>
     torn_down s \<and> \<not> isLive s \<and> liveStatus s = js ''Ready'' \<and> transcriptBufferRef s = []"


text \<open>
  One message of the session as \<open>onmessage\<close> meets it: the message, the output context's
  \<open>currentTime\<close> at that moment and the node \<open>createBufferSource()\<close> hands out.
\<close>

record arrival =
  currentTime :: real
  created_node :: source_id
  received :: server_message

definition lc_run :: "(jsstring \<Rightarrow> real) \<Rightarrow> arrival list \<Rightarrow> lc_state \<Rightarrow> lc_state" where
  "lc_run duration_of as s =
     foldl (\<lambda>s' a. lc_onmessage duration_of (currentTime a) (created_node a) (received a) s') s as"

definition sa_run :: "(jsstring \<Rightarrow> real) \<Rightarrow> arrival list \<Rightarrow> sa_state \<Rightarrow> sa_state" where
  "sa_run duration_of as s =
     foldl (\<lambda>s' a. sa_onmessage duration_of (currentTime a) (created_node a) (received a) s') s as"

text \<open>
  A schedule is chained from a cursor when its first chunk starts no earlier than the
  cursor and every further chunk no earlier than the end of the chunk before it.
\<close>

fun chained_from :: "real \<Rightarrow> scheduled_source list \<Rightarrow> bool" where
  "chained_from c [] = True"
| "chained_from c (x # xs) = (c \<le> start_time x \<and> chained_from (start_time x + buffer_duration x) xs)"

definition ends_before :: "scheduled_source \<Rightarrow> scheduled_source \<Rightarrow> bool" where
  "ends_before a b \<longleftrightarrow> start_time a + buffer_duration a \<le> start_time b"

text \<open>The chunks started between two states.\<close>

definition started_since :: "'a browser_scheme \<Rightarrow> 'b browser_scheme \<Rightarrow> scheduled_source list" where
  "started_since s s' = drop (length (started s)) (started s')"


text \<open>The audio-processing ticks of a session, in the order the browser fires them.\<close>

definition run_ticks :: "('a list \<Rightarrow> 'b) \<Rightarrow> 'a audio_buffer list \<Rightarrow> 'b session \<Rightarrow> 'b session" where
  "run_ticks createPcmBlob bufs p = foldl (\<lambda>q b. onaudioprocess createPcmBlob b q) p bufs"


text \<open>The two kinds of update of the message list, and one step of the list.\<close>

definition appends_one :: "updater \<Rightarrow> bool" where
  "appends_one u \<longleftrightarrow> (\<forall>rd buf prev. \<exists>m. u rd buf prev = prev @ [m])"

definition clears :: "updater \<Rightarrow> bool" where
  "clears u \<longleftrightarrow> (\<forall>rd buf prev. u rd buf prev = [])"

definition single_update :: "chat_message list \<Rightarrow> chat_message list \<Rightarrow> bool" where
  "single_update before after \<longleftrightarrow> (\<exists>m. after = before @ [m]) \<or> after = []"

text \<open>The updaters a handler has queued between two states.\<close>

definition queued_since :: "sa_state \<Rightarrow> sa_state \<Rightarrow> updater list" where
  "queued_since s s' = drop (length (messageQueue s)) (messageQueue s')"

definition setup_of :: "function_call \<Rightarrow> setup_file" where
  "setup_of fc = \<lparr>filename = args_filename fc, content = args_content fc\<rparr>"

definition is_save_setup :: "function_call \<Rightarrow> bool" where
  "is_save_setup fc \<longleftrightarrow> fc_name fc = js ''save_setup_json''"


text \<open>What one message does to the schedule and to the cursor.\<close>

definition one_step :: "(jsstring \<Rightarrow> real) \<Rightarrow> 'a live_refs_scheme \<Rightarrow> 'a live_refs_scheme \<Rightarrow> bool" where
  "one_step d s s' \<longleftrightarrow>
     (started s' = started s \<and> nextStartTimeRef s' = nextStartTimeRef s) \<or>
     (\<exists>n. started s' = started s @ [n] \<and> nextStartTimeRef s \<le> start_time n \<and>
          nextStartTimeRef s' = start_time n + buffer_duration n \<and> buffer_duration n \<in> range d)"

text \<open>A run of steps extends the schedule by a chain that starts at the cursor.\<close>

definition chain_extension :: "(jsstring \<Rightarrow> real) \<Rightarrow> 'a live_refs_scheme \<Rightarrow> 'a live_refs_scheme \<Rightarrow> bool" where
  "chain_extension d s s' \<longleftrightarrow>
     (\<exists>new. started s' = started s @ new \<and> chained_from (nextStartTimeRef s) new \<and>
        (\<forall>x\<in>set new. buffer_duration x \<in> range d))"

text \<open>A handler leaves the rendered list alone and queues updaters.\<close>

definition queues :: "sa_state \<Rightarrow> sa_state \<Rightarrow> updater list \<Rightarrow> bool" where
  "queues s s' us \<longleftrightarrow> messages s' = messages s \<and> messageQueue s' = messageQueue s @ us"


text \<open>
  Reading a downloaded file back as text: a UTF-8 decoder that accepts exactly the
  shortest encodings of scalar values, and the UTF-16 code units of what it read.
\<close>

definition is_scalar :: "nat \<Rightarrow> bool" where
  "is_scalar cp \<longleftrightarrow> cp < 0x110000 \<and> \<not> (0xD800 \<le> cp \<and> cp \<le> 0xDFFF)"

record decoder =
  decoded :: "nat list"
  needed :: nat
  code_point :: nat
  lower_bound :: nat

definition decode_byte :: "decoder \<Rightarrow> 8 word \<Rightarrow> decoder option" where
  "decode_byte st b =
     (if needed st = 0 then
        (if unat b < 0x80 then Some (st\<lparr>decoded := decoded st @ [unat b]\<rparr>)
         else if 0xC0 \<le> unat b \<and> unat b < 0xE0
           then Some (st\<lparr>needed := 1, code_point := unat b - 0xC0, lower_bound := 0x80\<rparr>)
         else if 0xE0 \<le> unat b \<and> unat b < 0xF0
           then Some (st\<lparr>needed := 2, code_point := unat b - 0xE0, lower_bound := 0x800\<rparr>)
         else if 0xF0 \<le> unat b \<and> unat b < 0xF8
           then Some (st\<lparr>needed := 3, code_point := unat b - 0xF0, lower_bound := 0x10000\<rparr>)
         else None)
      else if 0x80 \<le> unat b \<and> unat b < 0xC0 then
        (let cp = code_point st * 0x40 + (unat b - 0x80) in
         if needed st = 1
         then (if lower_bound st \<le> cp \<and> is_scalar cp
               then Some (st\<lparr>decoded := decoded st @ [cp], needed := 0, code_point := 0, lower_bound := 0\<rparr>)
               else None)
         else Some (st\<lparr>needed := needed st - 1, code_point := cp\<rparr>))
      else None)"

fun decode_bytes :: "decoder \<Rightarrow> 8 word list \<Rightarrow> decoder option" where
  "decode_bytes st [] = Some st"
| "decode_bytes st (b # bs) = (case decode_byte st b of None \<Rightarrow> None | Some st' \<Rightarrow> decode_bytes st' bs)"

definition utf8_decode :: "8 word list \<Rightarrow> nat list option" where
  "utf8_decode bs =
     (case decode_bytes \<lparr>decoded = [], needed = 0, code_point = 0, lower_bound = 0\<rparr> bs of
        None \<Rightarrow> None
      | Some st \<Rightarrow> if needed st = 0 then Some (decoded st) else None)"

fun utf16_encode :: "nat list \<Rightarrow> jsstring" where
  "utf16_encode [] = []"
| "utf16_encode (cp # cps) =
     (if cp < 0x10000 then [of_nat cp]
      else [of_nat (0xD800 + (cp - 0x10000) div 0x400), of_nat (0xDC00 + (cp - 0x10000) mod 0x400)])
     @ utf16_encode cps"

definition blob_text :: "download \<Rightarrow> jsstring option" where
  "blob_text d = map_option utf16_encode (utf8_decode (blob_bytes d))"

text \<open>A string without lone surrogates, and a string with each lone surrogate replaced by U+FFFD.\<close>

fun well_formed :: "jsstring \<Rightarrow> bool" where
  "well_formed [] = True"
| "well_formed [c] = (\<not> is_high_surrogate c \<and> \<not> is_low_surrogate c)"
| "well_formed (c # d # cs) =
     (if is_high_surrogate c \<and> is_low_surrogate d then well_formed cs
      else \<not> is_high_surrogate c \<and> \<not> is_low_surrogate c \<and> well_formed (d # cs))"

fun replace_lone_surrogates :: "jsstring \<Rightarrow> jsstring" where
  "replace_lone_surrogates [] = []"
| "replace_lone_surrogates [c] = [if is_high_surrogate c \<or> is_low_surrogate c then 0xFFFD else c]"
| "replace_lone_surrogates (c # d # cs) =
     (if is_high_surrogate c \<and> is_low_surrogate d then c # d # replace_lone_surrogates cs
      else (if is_high_surrogate c \<or> is_low_surrogate c then 0xFFFD else c)
           # replace_lone_surrogates (d # cs))"


section \<open>Concrete states and inputs\<close>

definition lc_example :: lc_state where
  "lc_example =
     \<lparr>ended_tracks = {}, stopped_sources = {}, timers = {7}, ctx_status = (\<lambda>c. Running),
      close_calls = [], started = [],
      streamRef = Some \<lparr>audio_tracks = [1], video_tracks = []\<rparr>,
      screenStreamRef = Some \<lparr>audio_tracks = [], video_tracks = [2]\<rparr>,
      audioContextRef = Some 11, inputContextRef = Some 10, nextStartTimeRef = 3,
      sessionRef = Some 1, frameIntervalRef = Some 7, sourcesRef = {5, 6}, isScreenSharing = True,
      isActive = True, error = None, status = js ''Connected! Listening...''\<rparr>"

definition sa_example :: sa_state where
  "sa_example =
     \<lparr>ended_tracks = {}, stopped_sources = {}, timers = {7}, ctx_status = (\<lambda>c. Running),
      close_calls = [], started = [],
      streamRef = Some \<lparr>audio_tracks = [1], video_tracks = []\<rparr>,
      screenStreamRef = Some \<lparr>audio_tracks = [], video_tracks = [2]\<rparr>,
      audioContextRef = Some 11, inputContextRef = Some 10, nextStartTimeRef = 3,
      sessionRef = Some 1, frameIntervalRef = Some 7, sourcesRef = {5, 6}, isScreenSharing = True,
      messages = [], messageQueue = [], inputText = [], selectedImage = None, isLoading = False,
      isLive = True, liveStatus = js ''Connected'', currentTranscript = js ''hi'',
      transcriptBufferRef = js ''hi'', toolResponses = []\<rparr>"

definition audio_chunk :: "source_id \<Rightarrow> real \<Rightarrow> arrival" where
  "audio_chunk src t =
     \<lparr>currentTime = t, created_node = src,
      received = \<lparr>base64Audio = Some (js ''AAAA''), interrupted = False, transcriptPart = None,
                  turnComplete = False, toolCall = None\<rparr>\<rparr>"

definition interruption :: "real \<Rightarrow> arrival" where
  "interruption t =
     \<lparr>currentTime = t, created_node = 0,
      received = \<lparr>base64Audio = None, interrupted = True, transcriptPart = None,
                  turnComplete = False, toolCall = None\<rparr>\<rparr>"

definition open_session :: "nat media list \<Rightarrow> nat session" where
  "open_session sent = \<lparr>promise = Fulfilled, waiting = [], realtime_inputs = sent\<rparr>"

definition sa_initial :: "int \<Rightarrow> sa_state" where
  "sa_initial mounted =
     \<lparr>ended_tracks = {}, stopped_sources = {}, timers = {}, ctx_status = (\<lambda>c. Closed),
      close_calls = [], started = [],
      streamRef = None, screenStreamRef = None, audioContextRef = None, inputContextRef = None,
      nextStartTimeRef = 0, sessionRef = None, frameIntervalRef = None, sourcesRef = {},
      isScreenSharing = False,
      messages =
        [\<lparr>msg_id = js ''init'', role = Model,
          msg_text = js ''Hello! I'm your ACC Setup Engineer. We can discuss your car's handling via voice or text. When we find a good configuration, just ask me to generate the setup file for you.'',
          msg_image = None, setupFile = None, timestamp = mounted\<rparr>],
      messageQueue = [], inputText = [], selectedImage = None, isLoading = False,
      isLive = False, liveStatus = js ''Ready'', currentTranscript = [],
      transcriptBufferRef = [], toolResponses = []\<rparr>"

definition save_call :: "string \<Rightarrow> string \<Rightarrow> function_call" where
  "save_call name body =
     \<lparr>fc_name = js ''save_setup_json'', fc_id = Some (js ''call''),
      args_filename = js name, args_content = js body\<rparr>"

definition tool_message :: "function_call list \<Rightarrow> server_message" where
  "tool_message fcs =
     \<lparr>base64Audio = None, interrupted = False, transcriptPart = None, turnComplete = False,
      toolCall = Some fcs\<rparr>"

definition same_millisecond :: "nat \<Rightarrow> clock_reading" where
  "same_millisecond k = \<lparr>date_now = 1700000000000, new_date = 1700000000000\<rparr>"

definition live_env :: start_env where
  "live_env =
     \<lparr>new_inputCtx = 10, new_outputCtx = 11,
      getUserMedia = Inr \<lparr>audio_tracks = [1], video_tracks = []\<rparr>, connect = Inr 1\<rparr>"

text \<open>The component after mounting, a click on the start button and the session's \<open>onopen\<close>.\<close>

definition sa_live :: sa_state where
  "sa_live = sa_handle (\<lambda>x. 5) OnOpen (sa_handle (\<lambda>x. 5) (StartLiveSession live_env) (sa_initial 0))"

definition transcript_message :: "string \<Rightarrow> server_message" where
  "transcript_message part =
     \<lparr>base64Audio = None, interrupted = False, transcriptPart = Some (js part), turnComplete = False,
      toolCall = None\<rparr>"

definition mic_denied :: start_env where
  "mic_denied =
     \<lparr>new_inputCtx = 20, new_outputCtx = 21,
      getUserMedia = Inl \<lparr>message = Some (js ''Permission denied'')\<rparr>, connect = Inr 2\<rparr>"

definition share_denied :: share_env where
  "share_denied =
     \<lparr>getDisplayMedia = Inl \<lparr>message = Some (js ''Permission denied'')\<rparr>,
      videoRef_present = True, canvasRef_present = True, new_interval = 9,
      type_error = \<lparr>message = Some (js ''Cannot set properties of undefined'')\<rparr>\<rparr>"

definition surrogate_call :: function_call where
  "surrogate_call =
     \<lparr>fc_name = js ''save_setup_json'', fc_id = Some (js ''call''),
      args_filename = js ''spa.json'', args_content = [0x61, 0xD83D, 0x62]\<rparr>"


section \<open>Teardown\<close>

text \<open>Each block of the teardown, written as one record update.\<close>

lemma clear_frame_interval_upd:
  "clear_frame_interval s =
     s\<lparr>timers := timers s - {i. frameIntervalRef s = Some i \<and> i \<noteq> 0},
       frameIntervalRef := (if frameIntervalRef s = Some 0 then Some 0 else None)\<rparr>"
  by (cases s) (auto simp: clear_frame_interval_def clearInterval_def split: option.splits)

lemma stop_mic_stream_upd:
  "stop_mic_stream s = s\<lparr>ended_tracks := ended_tracks s \<union> tracks_of (streamRef s), streamRef := None\<rparr>"
  by (cases s) (auto simp: stop_mic_stream_def stop_tracks_def tracks_of_def split: option.splits)

lemma stop_screen_stream_upd:
  "stop_screen_stream s =
     s\<lparr>ended_tracks := ended_tracks s \<union> tracks_of (screenStreamRef s), screenStreamRef := None\<rparr>"
  by (cases s) (auto simp: stop_screen_stream_def stop_tracks_def tracks_of_def split: option.splits)

lemma lc_close_contexts_upd:
  "lc_close_contexts s =
     s\<lparr>ctx_status := closed_by_teardown s, close_calls := close_calls s @ to_close s,
       audioContextRef := None, inputContextRef := None\<rparr>"
  by (cases s)
    (auto simp: lc_close_contexts_def ctx_close_def to_close_def closed_by_teardown_def fun_eq_iff
      split: option.splits)

lemma sa_close_contexts_upd:
  "sa_close_contexts s =
     s\<lparr>ctx_status := closed_by_teardown s, close_calls := close_calls s @ to_close s\<rparr>"
  by (cases s)
    (auto simp: sa_close_contexts_def ctx_close_def to_close_def closed_by_teardown_def fun_eq_iff
      split: option.splits)

lemmas block_upds = clear_frame_interval_upd stop_mic_stream_upd stop_screen_stream_upd
  stop_sources_def

lemma closed_by_teardown_simps:
  "closed_by_teardown (s\<lparr>timers := t\<rparr>) = closed_by_teardown s"
  "closed_by_teardown (s\<lparr>frameIntervalRef := f\<rparr>) = closed_by_teardown s"
  "closed_by_teardown (s\<lparr>ended_tracks := e\<rparr>) = closed_by_teardown s"
  "closed_by_teardown (s\<lparr>streamRef := r\<rparr>) = closed_by_teardown s"
  "closed_by_teardown (s\<lparr>screenStreamRef := r\<rparr>) = closed_by_teardown s"
  "closed_by_teardown (s\<lparr>stopped_sources := x\<rparr>) = closed_by_teardown s"
  "closed_by_teardown (s\<lparr>sourcesRef := y\<rparr>) = closed_by_teardown s"
  by (simp_all add: closed_by_teardown_def fun_eq_iff)

lemma to_close_simps:
  "to_close (s\<lparr>timers := t\<rparr>) = to_close s"
  "to_close (s\<lparr>frameIntervalRef := f\<rparr>) = to_close s"
  "to_close (s\<lparr>ended_tracks := e\<rparr>) = to_close s"
  "to_close (s\<lparr>streamRef := r\<rparr>) = to_close s"
  "to_close (s\<lparr>screenStreamRef := r\<rparr>) = to_close s"
  "to_close (s\<lparr>stopped_sources := x\<rparr>) = to_close s"
  "to_close (s\<lparr>sourcesRef := y\<rparr>) = to_close s"
  by (simp_all add: to_close_def split: option.splits)

lemma to_close_iff:
  "c \<in> set (to_close s) \<longleftrightarrow>
     (audioContextRef s = Some c \<or> inputContextRef s = Some c) \<and> ctx_status s c \<noteq> Closed"
  by (auto simp: to_close_def split: option.splits)

lemma lc_stopSession_upd:
  "lc_stopSession s =
     s\<lparr>timers := timers s - {i. frameIntervalRef s = Some i \<and> i \<noteq> 0},
       frameIntervalRef := (if frameIntervalRef s = Some 0 then Some 0 else None),
       ended_tracks := ended_tracks s \<union> tracks_of (streamRef s) \<union> tracks_of (screenStreamRef s),
       streamRef := None, screenStreamRef := None,
       stopped_sources := stopped_sources s \<union> sourcesRef s, sourcesRef := {},
       ctx_status := closed_by_teardown s, close_calls := close_calls s @ to_close s,
       audioContextRef := None, inputContextRef := None,
       isActive := False, isScreenSharing := False, status := js ''Disconnected''\<rparr>"
  by (simp add: lc_stopSession_def block_upds lc_close_contexts_upd Let_def
      closed_by_teardown_simps to_close_simps)

lemma sa_stopLiveSession_upd:
  "sa_stopLiveSession s =
     s\<lparr>timers := timers s - {i. frameIntervalRef s = Some i \<and> i \<noteq> 0},
       frameIntervalRef := (if frameIntervalRef s = Some 0 then Some 0 else None),
       ended_tracks := ended_tracks s \<union> tracks_of (streamRef s) \<union> tracks_of (screenStreamRef s),
       streamRef := None, screenStreamRef := None,
       stopped_sources := stopped_sources s \<union> sourcesRef s, sourcesRef := {},
       ctx_status := closed_by_teardown s, close_calls := close_calls s @ to_close s,
       isLive := False, isScreenSharing := False, liveStatus := js ''Ready'',
       messageQueue := messageQueue s @ (if transcriptBufferRef s \<noteq> [] then [append_pending_transcript] else []),
       transcriptBufferRef := [],
       currentTranscript := (if transcriptBufferRef s \<noteq> [] then [] else currentTranscript s)\<rparr>"
proof (cases "transcriptBufferRef s = []")
  case True
  have "sa_stopLiveSession s =
     s\<lparr>timers := timers s - {i. frameIntervalRef s = Some i \<and> i \<noteq> 0},
       frameIntervalRef := (if frameIntervalRef s = Some 0 then Some 0 else None),
       ended_tracks := ended_tracks s \<union> tracks_of (streamRef s) \<union> tracks_of (screenStreamRef s),
       streamRef := None, screenStreamRef := None,
       stopped_sources := stopped_sources s \<union> sourcesRef s, sourcesRef := {},
       ctx_status := closed_by_teardown s, close_calls := close_calls s @ to_close s,
       isLive := False, isScreenSharing := False, liveStatus := js ''Ready''\<rparr>"
    using True
    by (simp add: sa_stopLiveSession_def block_upds sa_close_contexts_upd Let_def
        closed_by_teardown_simps to_close_simps)
  also have "\<dots> = \<dots>\<lparr>messageQueue := messageQueue s @ [], transcriptBufferRef := [],
                        currentTranscript := currentTranscript s\<rparr>"
    using True by (cases s) simp
  finally show ?thesis using True by simp
next
  case False
  then show ?thesis
    by (simp add: sa_stopLiveSession_def block_upds sa_close_contexts_upd Let_def
        closed_by_teardown_simps to_close_simps setMessages_def)
qed

lemma lc_released:
  assumes "frameIntervalRef s \<noteq> Some 0"
  shows "media_released s (lc_stopSession s) \<and> \<not> isActive (lc_stopSession s)"
  using assms
  by (auto simp: media_released_def lc_stopSession_upd new_close_calls_def to_close_iff
      closed_by_teardown_def)

lemma sa_released:
  assumes "frameIntervalRef s \<noteq> Some 0"
  shows "media_released s (sa_stopLiveSession s) \<and> \<not> isLive (sa_stopLiveSession s)"
  using assms
  by (auto simp: media_released_def sa_stopLiveSession_upd new_close_calls_def to_close_iff
      closed_by_teardown_def)

text \<open>A state that holds no media is a fixed point of each block, hence of the teardown.\<close>

lemma clear_frame_interval_fix:
  "frameIntervalRef s = None \<or> frameIntervalRef s = Some 0 \<Longrightarrow> clear_frame_interval s = s"
  by (auto simp: clear_frame_interval_def)

lemma stop_mic_stream_fix: "streamRef s = None \<Longrightarrow> stop_mic_stream s = s"
  by (simp add: stop_mic_stream_def)

lemma stop_screen_stream_fix: "screenStreamRef s = None \<Longrightarrow> stop_screen_stream s = s"
  by (simp add: stop_screen_stream_def)

lemma stop_sources_fix: "sourcesRef s = {} \<Longrightarrow> stop_sources s = s"
  by (cases s) (simp add: stop_sources_def)

lemma lc_close_contexts_fix:
  "audioContextRef s = None \<Longrightarrow> inputContextRef s = None \<Longrightarrow> lc_close_contexts s = s"
  by (simp add: lc_close_contexts_def)

lemma sa_close_contexts_fix:
  "(\<forall>c. audioContextRef s = Some c \<or> inputContextRef s = Some c \<longrightarrow> ctx_status s c = Closed) \<Longrightarrow>
   sa_close_contexts s = s"
  by (simp add: sa_close_contexts_def split: option.splits)

lemma lc_quiet_fix:
  assumes q: "lc_quiet s"
  shows "lc_stopSession s = s"
proof -
  have "lc_stopSession s = s\<lparr>isActive := False, isScreenSharing := False, status := js ''Disconnected''\<rparr>"
    using q by (simp add: lc_quiet_def torn_down_def lc_stopSession_def clear_frame_interval_fix
        stop_mic_stream_fix stop_screen_stream_fix stop_sources_fix lc_close_contexts_fix)
  also have "\<dots> = s"
    using q by (cases s) (simp add: lc_quiet_def torn_down_def)
  finally show ?thesis .
qed

lemma sa_quiet_fix:
  assumes q: "sa_quiet s"
  shows "sa_stopLiveSession s = s"
proof -
  have "sa_stopLiveSession s = s\<lparr>isLive := False, isScreenSharing := False, liveStatus := js ''Ready''\<rparr>"
    using q by (simp add: sa_quiet_def torn_down_def sa_stopLiveSession_def clear_frame_interval_fix
        stop_mic_stream_fix stop_screen_stream_fix stop_sources_fix sa_close_contexts_fix)
  also have "\<dots> = s"
    using q by (cases s) (simp add: sa_quiet_def torn_down_def)
  finally show ?thesis .
qed

lemma lc_quiet_stop: "lc_quiet (lc_stopSession s)"
  by (simp add: lc_quiet_def torn_down_def lc_stopSession_upd)

lemma sa_quiet_stop: "sa_quiet (sa_stopLiveSession s)"
  by (auto simp: sa_quiet_def torn_down_def sa_stopLiveSession_upd closed_by_teardown_def)

lemma lc_example_fields:
  "frameIntervalRef lc_example = Some 7" "timers lc_example = {7}"
  "streamRef lc_example = Some \<lparr>audio_tracks = [1], video_tracks = []\<rparr>"
  "screenStreamRef lc_example = Some \<lparr>audio_tracks = [], video_tracks = [2]\<rparr>"
  "audioContextRef lc_example = Some 11" "inputContextRef lc_example = Some 10"
  "ctx_status lc_example = (\<lambda>c. Running)" "sourcesRef lc_example = {5, 6}"
  "isActive lc_example" "isScreenSharing lc_example" "ended_tracks lc_example = {}"
  "close_calls lc_example = []" "stopped_sources lc_example = {}"
  "error lc_example = None" "sessionRef lc_example = Some 1"
  "nextStartTimeRef lc_example = 3" "started lc_example = []"
  by (simp_all add: lc_example_def)

lemma sa_example_fields:
  "frameIntervalRef sa_example = Some 7" "timers sa_example = {7}"
  "streamRef sa_example = Some \<lparr>audio_tracks = [1], video_tracks = []\<rparr>"
  "screenStreamRef sa_example = Some \<lparr>audio_tracks = [], video_tracks = [2]\<rparr>"
  "audioContextRef sa_example = Some 11" "inputContextRef sa_example = Some 10"
  "ctx_status sa_example = (\<lambda>c. Running)" "sourcesRef sa_example = {5, 6}"
  "isLive sa_example" "isScreenSharing sa_example" "ended_tracks sa_example = {}"
  "close_calls sa_example = []" "stopped_sources sa_example = {}"
  "messages sa_example = []" "messageQueue sa_example = []"
  "transcriptBufferRef sa_example = js ''hi''" "sessionRef sa_example = Some 1"
  "nextStartTimeRef sa_example = 3" "started sa_example = []"
  by (simp_all add: sa_example_def)

text \<open>
  Claim C4.  Whatever the state before, when \<open>stopSession\<close> (LiveCoach) or
  \<open>stopLiveSession\<close> (SetupAssistant) returns, the frame timer is cleared and its ref
  null, every track of the microphone stream and of the screen stream is stopped and
  both stream refs are null, every tracked source node is stopped and the tracked set
  empty, \<open>close()\<close> has been called on each audio context exactly if it was not closed
  already, and the active and screen-sharing flags are false.  The premise says that
  the ref holds a handle \<open>window.setInterval\<close> can return: handles are positive.
\<close>

theorem teardown_releases_media:
  assumes "frameIntervalRef s \<noteq> Some 0" and "frameIntervalRef t \<noteq> Some 0"
  shows "media_released s (lc_stopSession s) \<and> \<not> isActive (lc_stopSession s) \<and>
         media_released t (sa_stopLiveSession t) \<and> \<not> isLive (sa_stopLiveSession t)"
  using lc_released[OF assms(1)] sa_released[OF assms(2)] by simp

theorem teardown_releases_media_witness:
  "frameIntervalRef lc_example \<noteq> Some 0 \<and> frameIntervalRef sa_example \<noteq> Some 0 \<and>
   7 \<notin> timers (lc_stopSession lc_example) \<and> {1, 2} \<subseteq> ended_tracks (lc_stopSession lc_example) \<and>
   {5, 6} \<subseteq> stopped_sources (lc_stopSession lc_example) \<and>
   ctx_status (lc_stopSession lc_example) 10 = Closed \<and> ctx_status (lc_stopSession lc_example) 11 = Closed \<and>
   \<not> isActive (lc_stopSession lc_example) \<and>
   7 \<notin> timers (sa_stopLiveSession sa_example) \<and> {1, 2} \<subseteq> ended_tracks (sa_stopLiveSession sa_example) \<and>
   {5, 6} \<subseteq> stopped_sources (sa_stopLiveSession sa_example) \<and>
   ctx_status (sa_stopLiveSession sa_example) 10 = Closed \<and> ctx_status (sa_stopLiveSession sa_example) 11 = Closed \<and>
   \<not> isLive (sa_stopLiveSession sa_example)"
proof -
  have h1: "frameIntervalRef lc_example \<noteq> Some 0" by (simp add: lc_example_fields)
  have h2: "frameIntervalRef sa_example \<noteq> Some 0" by (simp add: sa_example_fields)
  from teardown_releases_media[OF h1 h2] show ?thesis
    by (simp add: media_released_def lc_example_fields sa_example_fields tracks_of_def getTracks_def)
qed

text \<open>
  Claim C10.  Teardown is idempotent: a second \<open>stopSession\<close> (or \<open>stopLiveSession\<close>)
  run directly after the first changes nothing, neither in the component nor in the
  browser objects (no further \<open>stop()\<close>, \<open>close()\<close> or \<open>clearInterval\<close>, no further message).
\<close>

theorem teardown_idempotent:
  "lc_stopSession (lc_stopSession s) = lc_stopSession s \<and>
   sa_stopLiveSession (sa_stopLiveSession t) = sa_stopLiveSession t"
  using lc_quiet_fix[OF lc_quiet_stop] sa_quiet_fix[OF sa_quiet_stop] by simp


section \<open>Scheduling the output audio\<close>

lemma schedule_audio_none: "\<not> truthy (base64Audio m) \<Longrightarrow> schedule_audio d t src m s = s"
  by (simp add: schedule_audio_def truthy_def split: option.splits)

lemma schedule_audio_some:
  assumes "base64Audio m = Some data" and "data \<noteq> []"
  shows "schedule_audio d t src m s =
     s\<lparr>nextStartTimeRef := max (nextStartTimeRef s) t + d data,
       started := started s @
         [\<lparr>node = src, start_time = max (nextStartTimeRef s) t, buffer_duration = d data\<rparr>],
       sourcesRef := insert src (sourcesRef s)\<rparr>"
  using assms by (simp add: schedule_audio_def Let_def)

lemma schedule_audio_sources: "sourcesRef s \<subseteq> sourcesRef (schedule_audio d t src m s)"
  by (auto simp: schedule_audio_def Let_def split: option.splits)

lemma schedule_audio_stopped: "stopped_sources (schedule_audio d t src m s) = stopped_sources s"
  by (simp add: schedule_audio_def Let_def split: option.splits)

text \<open>
  Claim C8.  When \<open>LiveCoach\<close> handles a message with \<open>serverContent.interrupted\<close>, every
  source node tracked at that point (those tracked before and the one the same message
  may just have scheduled) is stopped, the tracked set becomes empty and the cursor
  is back at 0: nothing scheduled before the interruption stays tracked or unstopped.
\<close>

theorem interruption_stops_playback:
  assumes "interrupted m"
  shows "sourcesRef (lc_onmessage d t src m s) = {} \<and>
         nextStartTimeRef (lc_onmessage d t src m s) = 0 \<and>
         sourcesRef s \<subseteq> stopped_sources (lc_onmessage d t src m s) \<and>
         sourcesRef (schedule_audio d t src m s) \<subseteq> stopped_sources (lc_onmessage d t src m s)"
  using assms schedule_audio_sources[of s d t src m]
  by (auto simp: lc_onmessage_def stop_sources_def Let_def)

theorem interruption_stops_playback_witness:
  "interrupted (received (interruption 1)) \<and>
   sourcesRef (lc_onmessage (\<lambda>x. 5) 1 0 (received (interruption 1)) lc_example) = {} \<and>
   nextStartTimeRef (lc_onmessage (\<lambda>x. 5) 1 0 (received (interruption 1)) lc_example) = 0 \<and>
   {5, 6} \<subseteq> stopped_sources (lc_onmessage (\<lambda>x. 5) 1 0 (received (interruption 1)) lc_example)"
proof -
  have h: "interrupted (received (interruption 1))" by (simp add: interruption_def)
  from interruption_stops_playback[OF h, of "\<lambda>x. 5" 1 0 lc_example] show ?thesis
    using h by (simp add: lc_example_fields)
qed

lemma schedule_audio_one_step: "one_step d s (schedule_audio d t src m s)"
proof (cases "truthy (base64Audio m)")
  case False
  then show ?thesis by (simp add: schedule_audio_none one_step_def)
next
  case True
  then obtain data where "base64Audio m = Some data" "data \<noteq> []"
    by (auto simp: truthy_def split: option.splits)
  then show ?thesis
    by (simp add: schedule_audio_some one_step_def)
qed

lemma handle_function_call_frame:
  "started (handle_function_call fc s) = started s"
  "nextStartTimeRef (handle_function_call fc s) = nextStartTimeRef s"
  by (simp_all add: handle_function_call_def setMessages_def Let_def)

lemma handle_toolCall_frame:
  "started (handle_toolCall m s) = started s \<and>
   nextStartTimeRef (handle_toolCall m s) = nextStartTimeRef s"
proof -
  have "started (foldl (\<lambda>s' fc. handle_function_call fc s') s fcs) = started s \<and>
        nextStartTimeRef (foldl (\<lambda>s' fc. handle_function_call fc s') s fcs) = nextStartTimeRef s" for fcs
    by (induction fcs arbitrary: s) (simp_all add: handle_function_call_frame)
  then show ?thesis by (simp add: handle_toolCall_def split: option.splits)
qed

lemma transcript_blocks_frame:
  "started (aggregate_transcript m s) = started s"
  "nextStartTimeRef (aggregate_transcript m s) = nextStartTimeRef s"
  "started (flush_on_turnComplete m s) = started s"
  "nextStartTimeRef (flush_on_turnComplete m s) = nextStartTimeRef s"
  by (simp_all add: aggregate_transcript_def flush_on_turnComplete_def setMessages_def Let_def
      split: option.splits)

lemma sa_onmessage_one_step: "one_step d s (sa_onmessage d t src m s)"
  using schedule_audio_one_step[of d s t src m]
  by (simp add: sa_onmessage_def one_step_def handle_toolCall_frame transcript_blocks_frame)

lemma lc_onmessage_one_step: "\<not> interrupted m \<Longrightarrow> one_step d s (lc_onmessage d t src m s)"
  using schedule_audio_one_step[of d s t src m]
  by (simp add: lc_onmessage_def Let_def)

lemma chain_extension_refl: "chain_extension d s s"
  by (simp add: chain_extension_def)

lemma chain_extension_step:
  assumes "one_step d s s1" and "chain_extension d s1 s'"
  shows "chain_extension d s s'"
proof -
  from assms(2) obtain new where new:
    "started s' = started s1 @ new" "chained_from (nextStartTimeRef s1) new"
    "\<forall>x\<in>set new. buffer_duration x \<in> range d"
    by (auto simp: chain_extension_def)
  from assms(1) consider
    (same) "started s1 = started s" "nextStartTimeRef s1 = nextStartTimeRef s"
    | (more) n where "started s1 = started s @ [n]" "nextStartTimeRef s \<le> start_time n"
      "nextStartTimeRef s1 = start_time n + buffer_duration n" "buffer_duration n \<in> range d"
    by (auto simp: one_step_def)
  then show ?thesis
  proof cases
    case same
    with new show ?thesis by (auto simp: chain_extension_def)
  next
    case more
    with new have "started s' = started s @ (n # new)" "chained_from (nextStartTimeRef s) (n # new)"
      "\<forall>x\<in>set (n # new). buffer_duration x \<in> range d"
      by simp_all
    then show ?thesis unfolding chain_extension_def by blast
  qed
qed

lemma sa_run_chain: "chain_extension d s (sa_run d as s)"
proof (induction as arbitrary: s)
  case Nil
  show ?case by (simp add: sa_run_def chain_extension_refl)
next
  case (Cons a as)
  have "sa_run d (a # as) s = sa_run d as (sa_onmessage d (currentTime a) (created_node a) (received a) s)"
    by (simp add: sa_run_def)
  with Cons[of "sa_onmessage d (currentTime a) (created_node a) (received a) s"]
    sa_onmessage_one_step[of d s "currentTime a" "created_node a" "received a"]
  show ?case by (simp add: chain_extension_step)
qed

lemma lc_run_chain:
  "\<forall>a\<in>set as. \<not> interrupted (received a) \<Longrightarrow> chain_extension d s (lc_run d as s)"
proof (induction as arbitrary: s)
  case Nil
  show ?case by (simp add: lc_run_def chain_extension_refl)
next
  case (Cons a as)
  have run: "lc_run d (a # as) s = lc_run d as (lc_onmessage d (currentTime a) (created_node a) (received a) s)"
    by (simp add: lc_run_def)
  from Cons.prems have "\<not> interrupted (received a)" "\<forall>a\<in>set as. \<not> interrupted (received a)"
    by simp_all
  with Cons.IH[of "lc_onmessage d (currentTime a) (created_node a) (received a) s"]
    lc_onmessage_one_step[of "received a" d s "currentTime a" "created_node a"] run
  show ?case by (simp add: chain_extension_step)
qed

lemma chained_sorted:
  "chained_from c xs \<Longrightarrow> \<forall>x\<in>set xs. 0 \<le> buffer_duration x \<Longrightarrow>
   sorted_wrt ends_before xs \<and> (\<forall>x\<in>set xs. c \<le> start_time x)"
proof (induction xs arbitrary: c)
  case Nil
  show ?case by simp
next
  case (Cons x xs)
  from Cons.prems have c: "c \<le> start_time x" and ch: "chained_from (start_time x + buffer_duration x) xs"
    and dx: "0 \<le> buffer_duration x" and dxs: "\<forall>y\<in>set xs. 0 \<le> buffer_duration y"
    by simp_all
  from Cons.IH[OF ch dxs] have ih: "sorted_wrt ends_before xs"
    "\<forall>y\<in>set xs. start_time x + buffer_duration x \<le> start_time y" by simp_all
  from ih(2) dx c have "\<forall>y\<in>set xs. c \<le> start_time y" by fastforce
  moreover from ih(2) have "\<forall>y\<in>set xs. ends_before x y" by (simp add: ends_before_def)
  ultimately show ?case using ih(1) c by simp
qed

lemma chain_extension_since:
  assumes "chain_extension d s s'"
  shows "take (length (started s)) (started s') = started s \<and>
         chained_from (nextStartTimeRef s) (started_since s s') \<and>
         ((\<forall>x. 0 \<le> d x) \<longrightarrow> sorted_wrt ends_before (started_since s s'))"
proof -
  from assms obtain new where new: "started s' = started s @ new"
    "chained_from (nextStartTimeRef s) new" "\<forall>x\<in>set new. buffer_duration x \<in> range d"
    by (auto simp: chain_extension_def)
  then have since: "started_since s s' = new" by (simp add: started_since_def)
  have "sorted_wrt ends_before new" if "\<forall>x. 0 \<le> d x"
  proof -
    from new(3) that have "\<forall>x\<in>set new. 0 \<le> buffer_duration x" by auto
    with chained_sorted[OF new(2)] show ?thesis by simp
  qed
  with new since show ?thesis by simp
qed

text \<open>
  Claim C1, as amended.  In \<open>SetupAssistant\<close>, for every sequence of received messages,
  and in \<open>LiveCoach\<close>, for every sequence of received messages none of which carries
  \<open>serverContent.interrupted\<close>, the chunks scheduled during the sequence are a chain: the
  first starts no earlier than the cursor, each further one no earlier than the start
  plus the duration of the one scheduled before it, so that with durations that are
  not negative no two of them overlap; what was scheduled before stays as it was.  For
  a message with audio the start time is \<open>max (cursor, currentTime)\<close> and the cursor
  afterwards is that start time plus the duration of the chunk.
\<close>

theorem output_chunks_chained:
  "take (length (started t)) (started (sa_run d as t)) = started t \<and>
   chained_from (nextStartTimeRef t) (started_since t (sa_run d as t)) \<and>
   ((\<forall>x. 0 \<le> d x) \<longrightarrow> sorted_wrt ends_before (started_since t (sa_run d as t))) \<and>
   ((\<forall>a\<in>set as. \<not> interrupted (received a)) \<longrightarrow>
      take (length (started s)) (started (lc_run d as s)) = started s \<and>
      chained_from (nextStartTimeRef s) (started_since s (lc_run d as s)) \<and>
      ((\<forall>x. 0 \<le> d x) \<longrightarrow> sorted_wrt ends_before (started_since s (lc_run d as s)))) \<and>
   (base64Audio m = Some data \<and> data \<noteq> [] \<longrightarrow>
      started_since r (schedule_audio d c src m r) =
        [\<lparr>node = src, start_time = max (nextStartTimeRef r) c, buffer_duration = d data\<rparr>] \<and>
      nextStartTimeRef (schedule_audio d c src m r) = max (nextStartTimeRef r) c + d data)"
proof -
  note sa = chain_extension_since[OF sa_run_chain[where d = d and s = t and as = as]]
  have lc: "take (length (started s)) (started (lc_run d as s)) = started s \<and>
      chained_from (nextStartTimeRef s) (started_since s (lc_run d as s)) \<and>
      ((\<forall>x. 0 \<le> d x) \<longrightarrow> sorted_wrt ends_before (started_since s (lc_run d as s)))"
    if "\<forall>a\<in>set as. \<not> interrupted (received a)"
    using chain_extension_since[OF lc_run_chain[OF that]] .
  have one: "started_since r (schedule_audio d c src m r) =
        [\<lparr>node = src, start_time = max (nextStartTimeRef r) c, buffer_duration = d data\<rparr>] \<and>
      nextStartTimeRef (schedule_audio d c src m r) = max (nextStartTimeRef r) c + d data"
    if "base64Audio m = Some data \<and> data \<noteq> []"
    using that by (simp add: schedule_audio_some started_since_def)
  from sa lc one show ?thesis by blast
qed

lemma audio_chunk_fields:
  "currentTime (audio_chunk src t) = t" "created_node (audio_chunk src t) = src"
  "base64Audio (received (audio_chunk src t)) = Some (js ''AAAA'')"
  "\<not> interrupted (received (audio_chunk src t))"
  "currentTime (interruption t) = t" "created_node (interruption t) = 0"
  "base64Audio (received (interruption t)) = None"
  "interrupted (received (interruption t))"
  by (simp_all add: audio_chunk_def interruption_def)

lemma some_audio: "js ''AAAA'' \<noteq> []"
  by (simp add: js_def)

theorem output_chunks_chained_witness:
  "\<not> interrupted (received (audio_chunk 8 0)) \<and> \<not> interrupted (received (audio_chunk 9 0)) \<and>
   0 \<le> (5 :: real) \<and>
   base64Audio (received (audio_chunk 8 0)) = Some (js ''AAAA'') \<and> js ''AAAA'' \<noteq> [] \<and>
   chained_from 3 (started_since lc_example (lc_run (\<lambda>x. 5) [audio_chunk 8 0, audio_chunk 9 0] lc_example)) \<and>
   sorted_wrt ends_before
     (started_since lc_example (lc_run (\<lambda>x. 5) [audio_chunk 8 0, audio_chunk 9 0] lc_example)) \<and>
   chained_from 3 (started_since sa_example (sa_run (\<lambda>x. 5) [audio_chunk 8 0, audio_chunk 9 0] sa_example)) \<and>
   started_since lc_example (schedule_audio (\<lambda>x. 5) 0 8 (received (audio_chunk 8 0)) lc_example) =
     [\<lparr>node = 8, start_time = 3, buffer_duration = 5\<rparr>]"
proof -
  have h1: "\<forall>a\<in>set [audio_chunk 8 0, audio_chunk 9 0]. \<not> interrupted (received a)"
    by (simp add: audio_chunk_fields)
  have h2: "\<forall>x. 0 \<le> (\<lambda>x. 5 :: real) x" by simp
  have h3: "base64Audio (received (audio_chunk 8 0)) = Some (js ''AAAA'') \<and> js ''AAAA'' \<noteq> []"
    by (simp add: audio_chunk_fields some_audio)
  from output_chunks_chained[where t = sa_example and d = "\<lambda>x. 5"
      and as = "[audio_chunk 8 0, audio_chunk 9 0]" and s = lc_example
      and m = "received (audio_chunk 8 0)" and data = "js ''AAAA''" and r = lc_example
      and c = 0 and src = 8] h1 h2 h3
  show ?thesis by (simp add: lc_example_fields sa_example_fields)
qed

text \<open>
  The claim as it was stated fails in \<open>LiveCoach\<close>: after two chunks of 5 seconds the
  cursor is at 13; an interrupted message resets it to 0, and the next chunk, received
  at \<open>currentTime\<close> 1, starts at 1, before the end of the chunk scheduled before it.
\<close>

theorem interruption_breaks_chain:
  "started_since lc_example
     (lc_run (\<lambda>x. 5) [audio_chunk 8 0, audio_chunk 9 0, interruption 1, audio_chunk 12 1] lc_example) =
     [\<lparr>node = 8, start_time = 3, buffer_duration = 5\<rparr>,
      \<lparr>node = 9, start_time = 8, buffer_duration = 5\<rparr>,
      \<lparr>node = 12, start_time = 1, buffer_duration = 5\<rparr>] \<and>
   \<not> chained_from (nextStartTimeRef lc_example)
     (started_since lc_example
       (lc_run (\<lambda>x. 5) [audio_chunk 8 0, audio_chunk 9 0, interruption 1, audio_chunk 12 1] lc_example))"
proof -
  have "started_since lc_example
     (lc_run (\<lambda>x. 5) [audio_chunk 8 0, audio_chunk 9 0, interruption 1, audio_chunk 12 1] lc_example) =
     [\<lparr>node = 8, start_time = 3, buffer_duration = 5\<rparr>,
      \<lparr>node = 9, start_time = 8, buffer_duration = 5\<rparr>,
      \<lparr>node = 12, start_time = 1, buffer_duration = 5\<rparr>]"
    by (simp add: started_since_def lc_run_def lc_onmessage_def audio_chunk_fields
        schedule_audio_some[OF _ some_audio] schedule_audio_none truthy_def stop_sources_def
        lc_example_fields)
  then show ?thesis by (simp add: lc_example_fields)
qed


section \<open>The microphone pipeline\<close>

lemma onaudioprocess_fulfilled:
  assumes "promise p = Fulfilled" and "b \<noteq> []"
  shows "onaudioprocess f b p = p\<lparr>realtime_inputs := realtime_inputs p @ [PcmBlob (f (b ! 0))]\<rparr>"
  using assms by (simp add: onaudioprocess_def getChannelData_def sendRealtimeInput_then_def)

lemma onaudioprocess_pending:
  assumes "promise p = Pending" and "b \<noteq> []"
  shows "onaudioprocess f b p = p\<lparr>waiting := waiting p @ [PcmBlob (f (b ! 0))]\<rparr>"
  using assms by (simp add: onaudioprocess_def getChannelData_def sendRealtimeInput_then_def)

lemma run_ticks_fulfilled:
  "promise p = Fulfilled \<Longrightarrow> \<forall>b\<in>set bufs. b \<noteq> [] \<Longrightarrow>
   run_ticks f bufs p =
     p\<lparr>realtime_inputs := realtime_inputs p @ map (\<lambda>b. PcmBlob (f (b ! 0))) bufs\<rparr>"
proof (induction bufs arbitrary: p)
  case Nil
  show ?case by (simp add: run_ticks_def)
next
  case (Cons b bufs)
  have "run_ticks f (b # bufs) p = run_ticks f bufs (onaudioprocess f b p)"
    by (simp add: run_ticks_def)
  also have "onaudioprocess f b p = p\<lparr>realtime_inputs := realtime_inputs p @ [PcmBlob (f (b ! 0))]\<rparr>"
    using Cons.prems by (simp add: onaudioprocess_fulfilled)
  also have "run_ticks f bufs \<dots> =
     p\<lparr>realtime_inputs := realtime_inputs p @ map (\<lambda>b. PcmBlob (f (b ! 0))) (b # bufs)\<rparr>"
    using Cons.prems by (subst Cons.IH) simp_all
  finally show ?case .
qed

lemma run_ticks_pending:
  "promise p = Pending \<Longrightarrow> \<forall>b\<in>set bufs. b \<noteq> [] \<Longrightarrow>
   run_ticks f bufs p = p\<lparr>waiting := waiting p @ map (\<lambda>b. PcmBlob (f (b ! 0))) bufs\<rparr>"
proof (induction bufs arbitrary: p)
  case Nil
  show ?case by (simp add: run_ticks_def)
next
  case (Cons b bufs)
  have "run_ticks f (b # bufs) p = run_ticks f bufs (onaudioprocess f b p)"
    by (simp add: run_ticks_def)
  also have "onaudioprocess f b p = p\<lparr>waiting := waiting p @ [PcmBlob (f (b ! 0))]\<rparr>"
    using Cons.prems by (simp add: onaudioprocess_pending)
  also have "run_ticks f bufs \<dots> = p\<lparr>waiting := waiting p @ map (\<lambda>b. PcmBlob (f (b ! 0))) (b # bufs)\<rparr>"
    using Cons.prems by (subst Cons.IH) simp_all
  finally show ?case .
qed

lemma ticks_before_fulfilment:
  assumes "promise p = Pending" and "\<forall>b\<in>set bufs. b \<noteq> []"
  shows "realtime_inputs (run_ticks f bufs p) = realtime_inputs p \<and>
         realtime_inputs (fulfil (run_ticks f bufs p)) =
           realtime_inputs p @ waiting p @ map (\<lambda>b. PcmBlob (f (b ! 0))) bufs"
  using assms by (simp add: run_ticks_pending fulfil_def)

text \<open>
  Claim C7.  While the input pipeline runs on a connected session (the session promise
  is fulfilled) every audio-processing tick sends exactly one chunk, the PCM blob made
  from channel 0 of that tick's input buffer, so the chunks sent are the blobs of the
  channel-0 buffers in tick order.  The buffers have a channel 0: the processor is
  created with one input channel (of 4096 samples).
\<close>

theorem ticks_send_channel0_in_order:
  assumes "promise p = Fulfilled" and "\<forall>b\<in>set bufs. b \<noteq> []" and "b \<noteq> []"
  shows "realtime_inputs (onaudioprocess createPcmBlob b p) =
           realtime_inputs p @ [PcmBlob (createPcmBlob (b ! 0))] \<and>
         realtime_inputs (run_ticks createPcmBlob bufs p) =
           realtime_inputs p @ map (\<lambda>b. PcmBlob (createPcmBlob (b ! 0))) bufs"
  using assms by (simp add: onaudioprocess_fulfilled run_ticks_fulfilled)

theorem ticks_send_channel0_in_order_witness:
  "promise (open_session []) = Fulfilled \<and>
   [[1, 2 :: nat]] \<noteq> [] \<and> [[3, 4 :: nat]] \<noteq> [] \<and> [[5, 6 :: nat]] \<noteq> [] \<and>
   realtime_inputs (onaudioprocess sum_list [[5, 6]] (open_session [])) = [PcmBlob 11] \<and>
   realtime_inputs (run_ticks sum_list [[[1, 2]], [[3, 4]]] (open_session [])) = [PcmBlob 3, PcmBlob 7]"
proof -
  have h1: "promise (open_session []) = Fulfilled" by (simp add: open_session_def)
  have h2: "\<forall>b\<in>set [[[1, 2]], [[3, 4 :: nat]]]. b \<noteq> []" by simp
  have h3: "[[5, 6 :: nat]] \<noteq> []" by simp
  from ticks_send_channel0_in_order[OF h1 h2 h3, of sum_list]
  show ?thesis by (simp add: open_session_def)
qed


section \<open>The chat\<close>

lemma queues_trans: "queues s s1 us \<Longrightarrow> queues s1 s2 vs \<Longrightarrow> queues s s2 (us @ vs)"
  by (simp add: queues_def)

lemma queues_since: "queues s s' us \<Longrightarrow> queued_since s s' = us"
  by (simp add: queues_def queued_since_def)

lemma schedule_audio_queues: "queues s (schedule_audio d t src m s) []"
  by (simp add: queues_def schedule_audio_def Let_def split: option.splits)

lemma aggregate_transcript_queues: "queues s (aggregate_transcript m s) []"
  by (simp add: queues_def aggregate_transcript_def Let_def split: option.splits)

lemma flush_on_turnComplete_queues:
  "queues s (flush_on_turnComplete m s)
     (if turnComplete m \<and> trim (transcriptBufferRef s) \<noteq> []
      then [append_model_text (speaker @ transcriptBufferRef s)] else [])"
  by (simp add: queues_def flush_on_turnComplete_def setMessages_def Let_def)

lemma handle_function_call_queues:
  "queues s (handle_function_call fc s) (if is_save_setup fc then [append_setup (setup_of fc)] else [])"
  by (simp add: queues_def handle_function_call_def setMessages_def Let_def is_save_setup_def setup_of_def)

lemma forEach_function_call_queues:
  "queues s (foldl (\<lambda>s' fc. handle_function_call fc s') s fcs)
     (map (\<lambda>fc. append_setup (setup_of fc)) (filter is_save_setup fcs))"
proof (induction fcs arbitrary: s)
  case Nil
  show ?case by (simp add: queues_def)
next
  case (Cons fc fcs)
  from queues_trans[OF handle_function_call_queues[of s fc] Cons[of "handle_function_call fc s"]]
  show ?case by (simp split: if_splits)
qed

lemma handle_toolCall_queues:
  "queues s (handle_toolCall m s)
     (case toolCall m of None \<Rightarrow> []
      | Some fcs \<Rightarrow> map (\<lambda>fc. append_setup (setup_of fc)) (filter is_save_setup fcs))"
  using forEach_function_call_queues[of s]
  by (simp add: handle_toolCall_def queues_def split: option.splits)

lemma transcript_buffer_after_audio:
  "transcriptBufferRef (schedule_audio d t src m s) = transcriptBufferRef s"
  by (simp add: schedule_audio_def Let_def split: option.splits)

lemma sa_onmessage_queues:
  "queues s (sa_onmessage d t src m s)
     ((if turnComplete m \<and> trim (transcriptBufferRef (aggregate_transcript m s)) \<noteq> []
       then [append_model_text (speaker @ transcriptBufferRef (aggregate_transcript m s))] else []) @
      (case toolCall m of None \<Rightarrow> []
       | Some fcs \<Rightarrow> map (\<lambda>fc. append_setup (setup_of fc)) (filter is_save_setup fcs)))"
proof -
  let ?s1 = "schedule_audio d t src m s"
  let ?s2 = "aggregate_transcript m ?s1"
  let ?s3 = "flush_on_turnComplete m ?s2"
  have buf: "transcriptBufferRef ?s2 = transcriptBufferRef (aggregate_transcript m s)"
    by (simp add: aggregate_transcript_def transcript_buffer_after_audio Let_def split: option.splits)
  from queues_trans[OF queues_trans[OF queues_trans[OF schedule_audio_queues[of s d t src m]
          aggregate_transcript_queues[of ?s1 m]] flush_on_turnComplete_queues[of ?s2 m]]
      handle_toolCall_queues[of ?s3 m]]
  show ?thesis unfolding sa_onmessage_def buf by simp
qed

lemma updaters_append_one:
  "appends_one (append_newMessage nm)" "appends_one (append_reply txt)"
  "appends_one append_pending_transcript" "appends_one (append_model_text txt)"
  "appends_one (append_setup sf)"
  by (simp_all add: appends_one_def append_newMessage_def append_reply_def
      append_pending_transcript_def append_model_text_def append_setup_def)

lemma sa_stopLiveSession_queues:
  "queues s (sa_stopLiveSession s) (if transcriptBufferRef s \<noteq> [] then [append_pending_transcript] else [])"
  by (simp add: queues_def sa_stopLiveSession_upd)

lemma sa_startLiveSession_queues:
  "\<exists>us. queues s (sa_startLiveSession env s) us \<and> (\<forall>u\<in>set us. appends_one u)"
  by (auto simp: updaters_append_one queues_def sa_startLiveSession_def sa_stopLiveSession_upd new_AudioContext_def Let_def
      split: sum.splits)

lemma sa_startScreenShare_queues:
  "\<exists>us. queues s (sa_startScreenShare env s) us \<and> (\<forall>u\<in>set us. appends_one u)"
  by (auto simp: updaters_append_one queues_def sa_startScreenShare_def setMessages_def setInterval_def Let_def
      split: sum.splits list.splits)

lemma sa_handleSendMessage_queues:
  "\<exists>us. queues s (sa_handleSendMessage now s) us \<and> (\<forall>u\<in>set us. appends_one u)"
  by (auto simp: updaters_append_one queues_def sa_handleSendMessage_def setMessages_def Let_def)

lemma sa_generateContent_settled_queues:
  "\<exists>us. queues s (sa_generateContent_settled r s) us \<and> (\<forall>u\<in>set us. appends_one u)"
  by (auto simp: updaters_append_one queues_def sa_generateContent_settled_def setMessages_def split: sum.splits)

lemma screen_track_ended_queues: "queues s (screen_track_ended s) []"
  by (simp add: queues_def screen_track_ended_def clearInterval_def Let_def split: option.splits)

lemma clear_chat_clears: "clears clear_chat"
  by (simp add: clears_def clear_chat_def)

lemma clear_chat_not_append: "\<not> appends_one clear_chat"
  by (simp add: appends_one_def clear_chat_def)

text \<open>Every handler but the clear button queues appending updaters only.\<close>

lemma handler_queues_appends:
  assumes "\<forall>clk. e \<noteq> Render clk" and "e \<noteq> ClearChat"
  shows "\<exists>us. queues s (sa_handle d e s) us \<and> (\<forall>u\<in>set us. appends_one u)"
proof (cases e)
  case (HandleSendMessage now)
  with sa_handleSendMessage_queues[of s now] show ?thesis by simp
next
  case (GenerateContentSettled r)
  with sa_generateContent_settled_queues[of s r] show ?thesis by simp
next
  case StopLiveSession
  with sa_stopLiveSession_queues[of s] show ?thesis
    by (auto simp: updaters_append_one split: if_splits)
next
  case (StartScreenShare env)
  with sa_startScreenShare_queues[of s env] show ?thesis by simp
next
  case ScreenTrackEnded
  with screen_track_ended_queues[of s] show ?thesis by auto
next
  case (StartLiveSession env)
  with sa_startLiveSession_queues[of s env] show ?thesis by simp
next
  case OnOpen
  then show ?thesis by (simp add: queues_def sa_onopen_def)
next
  case (OnMessage t src m)
  have "\<forall>u\<in>set ((if turnComplete m \<and> trim (transcriptBufferRef (aggregate_transcript m s)) \<noteq> []
       then [append_model_text (speaker @ transcriptBufferRef (aggregate_transcript m s))] else []) @
      (case toolCall m of None \<Rightarrow> []
       | Some fcs \<Rightarrow> map (\<lambda>fc. append_setup (setup_of fc)) (filter is_save_setup fcs))). appends_one u"
    by (auto simp: updaters_append_one split: option.splits)
  with sa_onmessage_queues[of s d t src m] OnMessage show ?thesis
    by (metis sa_handle.simps(8))
next
  case (SourceEnded src)
  then show ?thesis by (simp add: queues_def source_ended_def)
next
  case OnClose
  with sa_stopLiveSession_queues[of s] show ?thesis
    by (auto simp: sa_onclose_def updaters_append_one split: if_splits)
next
  case OnError
  with sa_stopLiveSession_queues[of "s\<lparr>liveStatus := js ''Error''\<rparr>"] show ?thesis
    by (auto simp: sa_onerror_def queues_def updaters_append_one split: if_splits)
next
  case ClearChat
  with assms show ?thesis by simp
next
  case (SetInputText x)
  then show ?thesis by (simp add: queues_def)
next
  case (SetSelectedImage x)
  then show ?thesis by (simp add: queues_def)
next
  case (Render clk)
  with assms show ?thesis by simp
qed

lemma apply_queue_single_updates:
  "\<forall>u\<in>set us. appends_one u \<or> clears u \<Longrightarrow>
   successively single_update (prev # apply_queue clk buf k us prev)"
proof (induction us arbitrary: prev k)
  case Nil
  show ?case by simp
next
  case (Cons u us)
  from Cons.prems have "appends_one u \<or> clears u" by simp
  then have "single_update prev (u (clk k) buf prev)"
    unfolding appends_one_def clears_def single_update_def by metis
  moreover from Cons.prems have "\<forall>v\<in>set us. appends_one v \<or> clears v" by simp
  from Cons.IH[OF this] have "successively single_update
      (u (clk k) buf prev # apply_queue clk buf (Suc k) us (u (clk k) buf prev))" .
  ultimately show ?case by simp
qed

lemma sa_stopped_example:
  "messageQueue (sa_stopLiveSession sa_example) = [append_pending_transcript]"
  "messages (sa_stopLiveSession sa_example) = []"
  "transcriptBufferRef (sa_stopLiveSession sa_example) = []"
  by (simp_all add: sa_stopLiveSession_upd sa_example_fields js_def)

text \<open>
  Claim C5.  No handler writes the rendered list: every handler but the clear button
  queues updaters that append exactly one message at the tail of whatever list they
  are given, the clear button queues one that returns the empty list.  When a render
  runs a queue of such updaters, every step of the list either appends one message,
  leaving the messages before it unchanged and in order, or empties the list.
\<close>

theorem chat_updates_append_or_clear:
  "((\<forall>clk. e \<noteq> Render clk) \<longrightarrow>
      messages (sa_handle d e s) = messages s \<and>
      take (length (messageQueue s)) (messageQueue (sa_handle d e s)) = messageQueue s \<and>
      (\<forall>u\<in>set (queued_since s (sa_handle d e s)). if e = ClearChat then clears u else appends_one u)) \<and>
   ((\<forall>u\<in>set (messageQueue s). appends_one u \<or> clears u) \<longrightarrow>
      successively single_update
        (messages s # apply_queue clk (transcriptBufferRef s) 0 (messageQueue s) (messages s))) \<and>
   messages (sa_handle d (Render clk) s) =
     last (messages s # apply_queue clk (transcriptBufferRef s) 0 (messageQueue s) (messages s)) \<and>
   messageQueue (sa_handle d (Render clk) s) = []"
proof -
  have handler: "messages (sa_handle d e s) = messages s \<and>
      take (length (messageQueue s)) (messageQueue (sa_handle d e s)) = messageQueue s \<and>
      (\<forall>u\<in>set (queued_since s (sa_handle d e s)). if e = ClearChat then clears u else appends_one u)"
    if nr: "\<forall>clk. e \<noteq> Render clk"
  proof (cases "e = ClearChat")
    case True
    then show ?thesis
      by (simp add: setMessages_def queued_since_def clear_chat_clears)
  next
    case False
    from handler_queues_appends[OF nr False, of s d] obtain us where
      "queues s (sa_handle d e s) us" "\<forall>u\<in>set us. appends_one u" by blast
    with False show ?thesis by (simp add: queues_def queued_since_def)
  qed
  show ?thesis
    using handler apply_queue_single_updates[of "messageQueue s" "messages s" clk "transcriptBufferRef s" 0]
    by (simp add: render_def)
qed

theorem chat_updates_append_or_clear_witness:
  "(\<forall>clk. ClearChat \<noteq> Render clk) \<and>
   messageQueue (sa_stopLiveSession sa_example) = [append_pending_transcript] \<and>
   appends_one append_pending_transcript \<and>
   queued_since (sa_stopLiveSession sa_example)
     (sa_handle (\<lambda>x. 5) ClearChat (sa_stopLiveSession sa_example)) = [clear_chat] \<and>
   clears clear_chat \<and>
   successively single_update
     [[], messages (sa_handle (\<lambda>x. 5) (Render same_millisecond) (sa_stopLiveSession sa_example))]"
proof -
  have h1: "\<forall>clk. ClearChat \<noteq> Render clk" by simp
  have h2: "\<forall>u\<in>set (messageQueue (sa_stopLiveSession sa_example)). appends_one u \<or> clears u"
    by (simp add: sa_stopped_example updaters_append_one)
  have q: "queued_since (sa_stopLiveSession sa_example)
     (sa_handle (\<lambda>x. 5) ClearChat (sa_stopLiveSession sa_example)) = [clear_chat]"
    by (simp add: queued_since_def setMessages_def)
  from chat_updates_append_or_clear[where e = ClearChat and s = "sa_stopLiveSession sa_example"
      and d = "\<lambda>x. 5" and clk = same_millisecond] h1 h2 q
  show ?thesis by (simp add: sa_stopped_example updaters_append_one)
qed


section \<open>The downloaded file\<close>

lemma byte_unat: "n < 256 \<Longrightarrow> unat (of_nat n :: 8 word) = n"
  by (simp add: unat_of_nat)

lemma decode_ascii:
  "n < 0x80 \<Longrightarrow>
   decode_byte \<lparr>decoded = out, needed = 0, code_point = 0, lower_bound = 0\<rparr> (of_nat n) =
     Some \<lparr>decoded = out @ [n], needed = 0, code_point = 0, lower_bound = 0\<rparr>"
  by (simp add: decode_byte_def byte_unat)

lemma decode_lead:
  "0xC0 \<le> n \<Longrightarrow> n < 0xE0 \<Longrightarrow>
   decode_byte \<lparr>decoded = out, needed = 0, code_point = 0, lower_bound = 0\<rparr> (of_nat n) =
     Some \<lparr>decoded = out, needed = 1, code_point = n - 0xC0, lower_bound = 0x80\<rparr>"
  "0xE0 \<le> n \<Longrightarrow> n < 0xF0 \<Longrightarrow>
   decode_byte \<lparr>decoded = out, needed = 0, code_point = 0, lower_bound = 0\<rparr> (of_nat n) =
     Some \<lparr>decoded = out, needed = 2, code_point = n - 0xE0, lower_bound = 0x800\<rparr>"
  "0xF0 \<le> n \<Longrightarrow> n < 0xF8 \<Longrightarrow>
   decode_byte \<lparr>decoded = out, needed = 0, code_point = 0, lower_bound = 0\<rparr> (of_nat n) =
     Some \<lparr>decoded = out, needed = 3, code_point = n - 0xF0, lower_bound = 0x10000\<rparr>"
  by (simp_all add: decode_byte_def byte_unat)

lemma decode_continuation:
  "0x80 \<le> n \<Longrightarrow> n < 0xC0 \<Longrightarrow> 1 < k \<Longrightarrow>
   decode_byte \<lparr>decoded = out, needed = k, code_point = c, lower_bound = l\<rparr> (of_nat n) =
     Some \<lparr>decoded = out, needed = k - 1, code_point = c * 0x40 + (n - 0x80), lower_bound = l\<rparr>"
  "0x80 \<le> n \<Longrightarrow> n < 0xC0 \<Longrightarrow> l \<le> c * 0x40 + (n - 0x80) \<Longrightarrow> is_scalar (c * 0x40 + (n - 0x80)) \<Longrightarrow>
   decode_byte \<lparr>decoded = out, needed = 1, code_point = c, lower_bound = l\<rparr> (of_nat n) =
     Some \<lparr>decoded = out @ [c * 0x40 + (n - 0x80)], needed = 0, code_point = 0, lower_bound = 0\<rparr>"
  by (simp_all add: decode_byte_def byte_unat Let_def)

lemma decode_scalar:
  assumes "is_scalar cp"
  shows "decode_bytes \<lparr>decoded = out, needed = 0, code_point = 0, lower_bound = 0\<rparr> (utf8_encode_scalar cp @ rest) =
         decode_bytes \<lparr>decoded = out @ [cp], needed = 0, code_point = 0, lower_bound = 0\<rparr> rest"
proof -
  consider (one) "cp < 0x80" | (two) "0x80 \<le> cp" "cp < 0x800" | (three) "0x800 \<le> cp" "cp < 0x10000"
    | (four) "0x10000 \<le> cp" "cp < 0x110000"
    using assms unfolding is_scalar_def by atomize_elim arith
  then show ?thesis
  proof cases
    case one
    then have "utf8_encode_scalar cp = [of_nat cp]" by (simp add: utf8_encode_scalar_def)
    with one show ?thesis by (simp add: decode_ascii)
  next
    case two
    define b0 b1 where "b0 = 0xC0 + cp div 0x40" and "b1 = 0x80 + cp mod 0x40"
    from two have enc: "utf8_encode_scalar cp @ rest = of_nat b0 # of_nat b1 # rest"
      by (simp add: utf8_encode_scalar_def b0_def b1_def)
    from two have b: "0xC0 \<le> b0" "b0 < 0xE0" "0x80 \<le> b1" "b1 < 0xC0"
      by (simp_all add: b0_def b1_def)
    have c: "(b0 - 0xC0) * 0x40 + (b1 - 0x80) = cp"
      by (simp add: b0_def b1_def)
    from two assms have ok: "0x80 \<le> (b0 - 0xC0) * 0x40 + (b1 - 0x80)"
      "is_scalar ((b0 - 0xC0) * 0x40 + (b1 - 0x80))"
      unfolding c by simp_all
    show ?thesis
      by (simp only: enc decode_bytes.simps decode_lead(1)[OF b(1,2)]
          decode_continuation(2)[OF b(3,4) ok] option.case c)
  next
    case three
    define b0 b1 b2 where "b0 = 0xE0 + cp div 0x1000" and "b1 = 0x80 + cp div 0x40 mod 0x40"
      and "b2 = 0x80 + cp mod 0x40"
    from three have enc: "utf8_encode_scalar cp @ rest = of_nat b0 # of_nat b1 # of_nat b2 # rest"
      by (simp add: utf8_encode_scalar_def b0_def b1_def b2_def)
    from three have b: "0xE0 \<le> b0" "b0 < 0xF0" "0x80 \<le> b1" "b1 < 0xC0" "0x80 \<le> b2" "b2 < 0xC0"
      by (simp_all add: b0_def b1_def b2_def)
    have "cp div 0x1000 = cp div 0x40 div 0x40" by (simp add: div_mult2_eq)
    then have c: "((b0 - 0xE0) * 0x40 + (b1 - 0x80)) * 0x40 + (b2 - 0x80) = cp"
      by (simp add: b0_def b1_def b2_def)
    from three assms have ok: "0x800 \<le> ((b0 - 0xE0) * 0x40 + (b1 - 0x80)) * 0x40 + (b2 - 0x80)"
      "is_scalar (((b0 - 0xE0) * 0x40 + (b1 - 0x80)) * 0x40 + (b2 - 0x80))"
      unfolding c by simp_all
    have k: "(1::nat) < 2" "(2::nat) - 1 = 1" by simp_all
    show ?thesis
      by (simp only: enc decode_bytes.simps decode_lead(2)[OF b(1,2)]
          decode_continuation(1)[OF b(3,4) k(1)] k(2)
          decode_continuation(2)[OF b(5,6) ok] option.case c)
  next
    case four
    define b0 b1 b2 b3 where "b0 = 0xF0 + cp div 0x40000" and "b1 = 0x80 + cp div 0x1000 mod 0x40"
      and "b2 = 0x80 + cp div 0x40 mod 0x40" and "b3 = 0x80 + cp mod 0x40"
    from four have enc: "utf8_encode_scalar cp @ rest = of_nat b0 # of_nat b1 # of_nat b2 # of_nat b3 # rest"
      by (simp add: utf8_encode_scalar_def b0_def b1_def b2_def b3_def)
    from four have b: "0xF0 \<le> b0" "b0 < 0xF8" "0x80 \<le> b1" "b1 < 0xC0" "0x80 \<le> b2" "b2 < 0xC0"
      "0x80 \<le> b3" "b3 < 0xC0"
      by (simp_all add: b0_def b1_def b2_def b3_def)
    have "cp div 0x1000 = cp div 0x40 div 0x40" "cp div 0x40000 = cp div 0x40 div 0x40 div 0x40"
      by (simp_all add: div_mult2_eq)
    then have c: "(((b0 - 0xF0) * 0x40 + (b1 - 0x80)) * 0x40 + (b2 - 0x80)) * 0x40 + (b3 - 0x80) = cp"
      by (simp add: b0_def b1_def b2_def b3_def)
    from four assms have ok:
      "0x10000 \<le> (((b0 - 0xF0) * 0x40 + (b1 - 0x80)) * 0x40 + (b2 - 0x80)) * 0x40 + (b3 - 0x80)"
      "is_scalar ((((b0 - 0xF0) * 0x40 + (b1 - 0x80)) * 0x40 + (b2 - 0x80)) * 0x40 + (b3 - 0x80))"
      unfolding c by simp_all
    have k: "(1::nat) < 3" "(3::nat) - 1 = 2" "(1::nat) < 2" "(2::nat) - 1 = 1" by simp_all
    show ?thesis
      by (simp only: enc decode_bytes.simps decode_lead(3)[OF b(1,2)]
          decode_continuation(1)[OF b(3,4) k(1)] k(2)
          decode_continuation(1)[OF b(5,6) k(3)] k(4)
          decode_continuation(2)[OF b(7,8) ok] option.case c)
  qed
qed

lemma decode_scalars:
  "\<forall>cp\<in>set cps. is_scalar cp \<Longrightarrow>
   decode_bytes \<lparr>decoded = out, needed = 0, code_point = 0, lower_bound = 0\<rparr> (utf8_encode cps) =
     Some \<lparr>decoded = out @ cps, needed = 0, code_point = 0, lower_bound = 0\<rparr>"
proof (induction cps arbitrary: out)
  case Nil
  show ?case by (simp add: utf8_encode_def)
next
  case (Cons cp cps)
  have "utf8_encode (cp # cps) = utf8_encode_scalar cp @ utf8_encode cps"
    by (simp add: utf8_encode_def)
  with Cons.prems Cons.IH[of "out @ [cp]"] show ?case
    by (simp add: decode_scalar)
qed

lemma utf8_round_trip: "\<forall>cp\<in>set cps. is_scalar cp \<Longrightarrow> utf8_decode (utf8_encode cps) = Some cps"
  using decode_scalars[of cps "[]"] by (simp add: utf8_decode_def)

lemma unit_scalar: "\<not> is_high_surrogate c \<Longrightarrow> \<not> is_low_surrogate c \<Longrightarrow> is_scalar (unat c)"
  using unsigned_less[of c, where 'a = nat]
  unfolding is_scalar_def is_high_surrogate_def is_low_surrogate_def by simp arith

lemma pair_scalar:
  "is_high_surrogate c \<Longrightarrow> is_low_surrogate d \<Longrightarrow>
   is_scalar (0x10000 + (unat c - 0xD800) * 0x400 + (unat d - 0xDC00))"
  unfolding is_scalar_def is_high_surrogate_def is_low_surrogate_def by arith

lemma replacement_scalar: "is_scalar 0xFFFD"
  by (simp add: is_scalar_def)

lemma to_scalars_scalar: "\<forall>cp\<in>set (to_scalars cs). is_scalar cp"
  by (induction cs rule: to_scalars.induct)
    (simp_all add: unit_scalar pair_scalar replacement_scalar)

lemma utf16_pair:
  assumes "is_high_surrogate c" and "is_low_surrogate d"
  shows "utf16_encode [0x10000 + (unat c - 0xD800) * 0x400 + (unat d - 0xDC00)] = [c, d]"
proof -
  define h l where "h = unat c - 0xD800" and "l = unat d - 0xDC00"
  from assms have hl: "0xD800 + h = unat c" "0xDC00 + l = unat d" "l < 0x400"
    unfolding h_def l_def is_high_surrogate_def is_low_surrogate_def by arith+
  have "(h * 0x400 + l) div 0x400 = h" "(h * 0x400 + l) mod 0x400 = l"
    using hl(3) by simp_all
  then have "utf16_encode [0x10000 + h * 0x400 + l] = [of_nat (0xD800 + h), of_nat (0xDC00 + l)]"
    by (simp add: add.assoc del: of_nat_add)
  then show ?thesis unfolding hl by (simp add: h_def l_def)
qed

lemma utf16_unit:
  assumes "\<not> is_high_surrogate c" and "\<not> is_low_surrogate c"
  shows "utf16_encode [unat c] = [c]"
  using unsigned_less[of c, where 'a = nat] by simp

lemma utf16_encode_Cons: "utf16_encode (cp # cps) = utf16_encode [cp] @ utf16_encode cps"
  by simp

lemma utf16_round_trip: "well_formed cs \<Longrightarrow> utf16_encode (to_scalars cs) = cs"
proof (induction cs rule: to_scalars.induct)
  case 1
  show ?case by simp
next
  case (2 c)
  then show ?case using utf16_unit[of c] by simp
next
  case (3 c d cs)
  show ?case
  proof (cases "is_high_surrogate c \<and> is_low_surrogate d")
    case True
    with 3 have "utf16_encode (to_scalars cs) = cs" by simp
    with True utf16_pair[of c d] show ?thesis
      by (simp only: to_scalars.simps if_True utf16_encode_Cons[of _ "to_scalars cs"]) simp
  next
    case False
    with 3 have ih: "utf16_encode (to_scalars (d # cs)) = d # cs"
      and ok: "\<not> is_high_surrogate c" "\<not> is_low_surrogate c" by simp_all
    from False ok ih utf16_unit[OF ok] show ?thesis
      by (simp only: to_scalars.simps if_False utf16_encode_Cons[of _ "to_scalars (d # cs)"]) simp
  qed
qed

lemma utf16_replacement: "utf16_encode [0xFFFD] = [0xFFFD]"
  by simp

lemma utf16_of_scalars: "utf16_encode (to_scalars cs) = replace_lone_surrogates cs"
proof (induction cs rule: to_scalars.induct)
  case 1
  show ?case by simp
next
  case (2 c)
  show ?case
  proof (cases "is_high_surrogate c \<or> is_low_surrogate c")
    case True
    then show ?thesis by (simp only: to_scalars.simps replace_lone_surrogates.simps if_True utf16_replacement)
  next
    case False
    then have "\<not> is_high_surrogate c" "\<not> is_low_surrogate c" by simp_all
    from utf16_unit[OF this] False show ?thesis
      by (simp only: to_scalars.simps replace_lone_surrogates.simps if_False)
  qed
next
  case (3 c d cs)
  show ?case
  proof (cases "is_high_surrogate c \<and> is_low_surrogate d")
    case True
    with 3 have ih: "utf16_encode (to_scalars cs) = replace_lone_surrogates cs" by simp
    from True utf16_pair[of c d] ih show ?thesis
      by (simp only: to_scalars.simps replace_lone_surrogates.simps if_True
          utf16_encode_Cons[of _ "to_scalars cs"]) simp
  next
    case False
    with 3 have ih: "utf16_encode (to_scalars (d # cs)) = replace_lone_surrogates (d # cs)" by simp
    show ?thesis
    proof (cases "is_high_surrogate c \<or> is_low_surrogate c")
      case True
      with False ih show ?thesis
        by (simp only: to_scalars.simps replace_lone_surrogates.simps if_True if_False
            utf16_encode_Cons[of _ "to_scalars (d # cs)"] utf16_replacement) simp
    next
      case lone: False
      then have "\<not> is_high_surrogate c" "\<not> is_low_surrogate c" by simp_all
      from utf16_unit[OF this] False lone ih show ?thesis
        by (simp only: to_scalars.simps replace_lone_surrogates.simps if_False
            utf16_encode_Cons[of _ "to_scalars (d # cs)"]) simp
    qed
  qed
qed

lemma well_formed_unchanged: "well_formed cs \<Longrightarrow> replace_lone_surrogates cs = cs"
  by (induction cs rule: replace_lone_surrogates.induct) (auto split: if_splits)

text \<open>The file read back as text is the content with each lone surrogate replaced.\<close>

lemma blob_text_downloadSetup:
  "blob_text (downloadSetup fname cont) = Some (replace_lone_surrogates cont)"
  by (simp add: blob_text_def downloadSetup_def utf8_round_trip[OF to_scalars_scalar] utf16_of_scalars)

lemma render_single:
  assumes "messageQueue s = [u]"
  shows "messages (render clk s) = u (clk 0) (transcriptBufferRef s) (messages s)"
  using assms by (simp add: render_def)

lemma render_pair:
  assumes "messageQueue s = [u, v]"
  shows "messages (render clk s) =
           v (clk 1) (transcriptBufferRef s) (u (clk 0) (transcriptBufferRef s) (messages s))"
  using assms by (simp add: render_def)

lemma tool_message_fields:
  "toolCall (tool_message fcs) = Some fcs" "\<not> turnComplete (tool_message fcs)"
  "base64Audio (tool_message fcs) = None" "transcriptPart (tool_message fcs) = None"
  by (simp_all add: tool_message_def)

lemma save_call_fields:
  "is_save_setup (save_call name body)" "args_filename (save_call name body) = js name"
  "args_content (save_call name body) = js body"
  by (simp_all add: save_call_def is_save_setup_def)

text \<open>
  Claim C6, as amended.  For a message with tool calls, the handler queues, after the
  transcript flush if there is one, exactly one appending updater for each
  \<open>save_setup_json\<close> call, in call order.  The message it appends carries a setup file
  whose filename and content are the two argument strings as they came, whatever they
  are (nothing inspects the content), and clicking the download card of that message
  builds, under exactly that filename, a blob holding the UTF-8 encoding of the
  content.  Read back as text the file is the content with each lone surrogate
  replaced by U+FFFD: the content verbatim when it has no lone surrogate.
\<close>

theorem setup_file_carried_and_encoded:
  assumes "toolCall m = Some fcs" and "is_save_setup fc"
  shows "drop (if turnComplete m \<and> trim (transcriptBufferRef (aggregate_transcript m s)) \<noteq> [] then 1 else 0)
           (queued_since s (sa_onmessage d t src m s)) =
           map (\<lambda>fc. append_setup (setup_of fc)) (filter is_save_setup fcs) \<and>
         append_setup (setup_of fc) rd buf prev =
           prev @ [last (append_setup (setup_of fc) rd buf prev)] \<and>
         setupFile (last (append_setup (setup_of fc) rd buf prev)) =
           Some \<lparr>filename = args_filename fc, content = args_content fc\<rparr> \<and>
         card_onClick (last (append_setup (setup_of fc) rd buf prev)) =
           Some (downloadSetup (args_filename fc) (args_content fc)) \<and>
         download_name (downloadSetup (args_filename fc) (args_content fc)) = args_filename fc \<and>
         blob_bytes (downloadSetup (args_filename fc) (args_content fc)) =
           utf8_encode (to_scalars (args_content fc)) \<and>
         blob_text (downloadSetup (args_filename fc) (args_content fc)) =
           Some (replace_lone_surrogates (args_content fc)) \<and>
         (well_formed (args_content fc) \<longrightarrow>
            blob_text (downloadSetup (args_filename fc) (args_content fc)) = Some (args_content fc)) \<and>
         (messageQueue s = [] \<and> \<not> turnComplete m \<and> fcs = [fc] \<longrightarrow>
            messages (render clk (sa_onmessage d t src m s)) =
              messages s @
                [model_message (clk 0) (js ''I've generated the setup file for you based on our session.'')
                   (Some \<lparr>filename = args_filename fc, content = args_content fc\<rparr>)])"
proof -
  note q = sa_onmessage_queues[of s d t src m]
  have a: "drop (if turnComplete m \<and> trim (transcriptBufferRef (aggregate_transcript m s)) \<noteq> [] then 1 else 0)
           (queued_since s (sa_onmessage d t src m s)) =
           map (\<lambda>fc. append_setup (setup_of fc)) (filter is_save_setup fcs)"
    using assms(1) by (simp add: queues_since[OF q])
  have b: "append_setup (setup_of fc) rd buf prev =
           prev @ [last (append_setup (setup_of fc) rd buf prev)] \<and>
         setupFile (last (append_setup (setup_of fc) rd buf prev)) =
           Some \<lparr>filename = args_filename fc, content = args_content fc\<rparr> \<and>
         card_onClick (last (append_setup (setup_of fc) rd buf prev)) =
           Some (downloadSetup (args_filename fc) (args_content fc))"
    by (simp add: append_setup_def setup_of_def model_message_def card_onClick_def)
  have c: "download_name (downloadSetup (args_filename fc) (args_content fc)) = args_filename fc \<and>
         blob_bytes (downloadSetup (args_filename fc) (args_content fc)) =
           utf8_encode (to_scalars (args_content fc))"
    by (simp add: downloadSetup_def)
  note read_back = blob_text_downloadSetup[of "args_filename fc" "args_content fc"]
  have w: "blob_text (downloadSetup (args_filename fc) (args_content fc)) = Some (args_content fc)"
    if "well_formed (args_content fc)"
    using read_back well_formed_unchanged[OF that] by simp
  have e: "messages (render clk (sa_onmessage d t src m s)) =
              messages s @
                [model_message (clk 0) (js ''I've generated the setup file for you based on our session.'')
                   (Some \<lparr>filename = args_filename fc, content = args_content fc\<rparr>)]"
    if "messageQueue s = [] \<and> \<not> turnComplete m \<and> fcs = [fc]"
  proof -
    from q that assms have "messageQueue (sa_onmessage d t src m s) = [append_setup (setup_of fc)]"
      "messages (sa_onmessage d t src m s) = messages s"
      by (simp_all add: queues_def)
    then show ?thesis
      by (simp add: render_single append_setup_def setup_of_def)
  qed
  from a b c read_back w e show ?thesis by blast
qed

lemma plain_text_well_formed: "well_formed (js ''not { json'')"
  by (simp add: js_def is_high_surrogate_def is_low_surrogate_def)

theorem setup_file_carried_and_encoded_witness:
  "toolCall (tool_message [save_call ''spa.json'' ''not { json'']) = Some [save_call ''spa.json'' ''not { json''] \<and>
   is_save_setup (save_call ''spa.json'' ''not { json'') \<and>
   well_formed (args_content (save_call ''spa.json'' ''not { json'')) \<and>
   messageQueue (sa_initial 0) = [] \<and> \<not> turnComplete (tool_message [save_call ''spa.json'' ''not { json'']) \<and>
   map setupFile (messages (render same_millisecond
       (sa_onmessage (\<lambda>x. 5) 0 4 (tool_message [save_call ''spa.json'' ''not { json'']) (sa_initial 0)))) =
     [None, Some \<lparr>filename = js ''spa.json'', content = js ''not { json''\<rparr>] \<and>
   blob_text (downloadSetup (js ''spa.json'') (js ''not { json'')) = Some (js ''not { json'')"
proof -
  have h1: "toolCall (tool_message [save_call ''spa.json'' ''not { json'']) = Some [save_call ''spa.json'' ''not { json'']"
    by (simp add: tool_message_fields)
  have h2: "is_save_setup (save_call ''spa.json'' ''not { json'')"
    by (simp add: save_call_fields)
  have h3: "messageQueue (sa_initial 0) = [] \<and> \<not> turnComplete (tool_message [save_call ''spa.json'' ''not { json''])"
    by (simp add: sa_initial_def tool_message_fields)
  have h4: "well_formed (args_content (save_call ''spa.json'' ''not { json''))"
    by (simp add: save_call_fields plain_text_well_formed)
  have m0: "map setupFile (messages (sa_initial 0)) = [None]"
    by (simp add: sa_initial_def)
  from setup_file_carried_and_encoded[OF h1 h2, where s = "sa_initial 0" and d = "\<lambda>x. 5" and t = 0 and src = 4
      and clk = same_millisecond] h1 h2 h3 h4 m0
  show ?thesis
    by (simp add: save_call_fields model_message_def well_formed_unchanged[OF plain_text_well_formed])
qed

text \<open>
  The claim as it was stated fails in its last part.  For the content \<open>a\<close>, a lone high
  surrogate, \<open>b\<close> the appended message carries the three code units as they came, but
  the blob of the download holds the encoding of U+FFFD in place of the surrogate, so
  the file is not the content string.
\<close>

theorem lone_surrogate_not_verbatim:
  "is_save_setup surrogate_call \<and> args_content surrogate_call = [0x61, 0xD83D, 0x62] \<and>
   setupFile (last (append_setup (setup_of surrogate_call) (same_millisecond 0) [] [])) =
     Some \<lparr>filename = js ''spa.json'', content = [0x61, 0xD83D, 0x62]\<rparr> \<and>
   map_option blob_text (card_onClick (last (append_setup (setup_of surrogate_call) (same_millisecond 0) [] []))) =
     Some (Some [0x61, 0xFFFD, 0x62]) \<and>
   blob_bytes (downloadSetup (js ''spa.json'') [0x61, 0xD83D, 0x62]) = [0x61, 0xEF, 0xBF, 0xBD, 0x62] \<and>
   blob_text (downloadSetup (js ''spa.json'') [0x61, 0xD83D, 0x62]) \<noteq> Some [0x61, 0xD83D, 0x62]"
proof -
  have sc: "to_scalars [0x61, 0xD83D, 0x62] = [0x61, 0xFFFD, 0x62]"
    by (simp add: is_high_surrogate_def is_low_surrogate_def)
  have rp: "replace_lone_surrogates [0x61, 0xD83D, 0x62] = [0x61, 0xFFFD, 0x62]"
    by (simp add: is_high_surrogate_def is_low_surrogate_def)
  have enc: "utf8_encode [0x61, 0xFFFD, 0x62] = [0x61, 0xEF, 0xBF, 0xBD, 0x62]"
    by (simp add: utf8_encode_def utf8_encode_scalar_def)
  have read_back: "blob_text (downloadSetup (js ''spa.json'') [0x61, 0xD83D, 0x62]) = Some [0x61, 0xFFFD, 0x62]"
    by (simp only: blob_text_downloadSetup rp)
  have bytes: "blob_bytes (downloadSetup (js ''spa.json'') [0x61, 0xD83D, 0x62]) = [0x61, 0xEF, 0xBF, 0xBD, 0x62]"
    unfolding downloadSetup_def sc enc by simp
  have call: "is_save_setup surrogate_call" "args_content surrogate_call = [0x61, 0xD83D, 0x62]"
    by (simp_all add: surrogate_call_def is_save_setup_def)
  have msg: "setupFile (last (append_setup (setup_of surrogate_call) (same_millisecond 0) [] [])) =
     Some \<lparr>filename = js ''spa.json'', content = [0x61, 0xD83D, 0x62]\<rparr>"
    "card_onClick (last (append_setup (setup_of surrogate_call) (same_millisecond 0) [] [])) =
     Some (downloadSetup (js ''spa.json'') [0x61, 0xD83D, 0x62])"
    by (simp_all add: surrogate_call_def append_setup_def setup_of_def model_message_def card_onClick_def)
  show ?thesis
    by (simp add: msg bytes read_back call)
qed

lemma sa_live_fields:
  "map msg_id (messages sa_live) = [js ''init'']" "messageQueue sa_live = []"
  "transcriptBufferRef sa_live = []" "isLive sa_live" "length (messages sa_live) = 1"
  "streamRef sa_live = Some \<lparr>audio_tracks = [1], video_tracks = []\<rparr>"
  "audioContextRef sa_live = Some 11" "inputContextRef sa_live = Some 10"
  "ctx_status sa_live 10 = Suspended" "ctx_status sa_live 11 = Suspended"
  "ended_tracks sa_live = {}" "sessionRef sa_live = Some 1"
  by (simp_all add: sa_live_def sa_onopen_def sa_startLiveSession_def live_env_def sa_initial_def
      new_AudioContext_def Let_def)

text \<open>
  Claim C2 fails on the code.  Every updater but that of the user's own message takes
  its identifier from \<open>Date.now()\<close> when it runs.  One server message with two
  \<open>save_setup_json\<close> calls queues two updaters; the next render runs them within the
  same millisecond and the two messages get the same identifier.
\<close>

theorem duplicate_ids_same_millisecond:
  "map msg_id (messages (sa_handle (\<lambda>x. 5) (Render same_millisecond)
      (sa_handle (\<lambda>x. 5) (OnMessage 0 4 (tool_message [save_call ''a.json'' ''{}'', save_call ''b.json'' ''{}'']))
        sa_live))) =
     [js ''init'', toString 1700000000000, toString 1700000000000] \<and>
   \<not> distinct (map msg_id (messages (sa_handle (\<lambda>x. 5) (Render same_millisecond)
      (sa_handle (\<lambda>x. 5) (OnMessage 0 4 (tool_message [save_call ''a.json'' ''{}'', save_call ''b.json'' ''{}'']))
        sa_live))))"
proof -
  let ?m = "tool_message [save_call ''a.json'' ''{}'', save_call ''b.json'' ''{}'']"
  let ?s = "sa_onmessage (\<lambda>x. 5) 0 4 ?m sa_live"
  from sa_onmessage_queues[of sa_live "\<lambda>x. 5" 0 4 ?m]
  have q: "messageQueue ?s =
      [append_setup (setup_of (save_call ''a.json'' ''{}'')), append_setup (setup_of (save_call ''b.json'' ''{}''))]"
    and ms: "messages ?s = messages sa_live"
    by (simp_all add: queues_def tool_message_fields save_call_fields sa_live_fields)
  have "map msg_id (messages (render same_millisecond ?s)) =
     map msg_id (messages sa_live) @ [toString 1700000000000, toString 1700000000000]"
    unfolding render_pair[OF q] ms
    by (simp add: append_setup_def model_message_def same_millisecond_def)
  then have "map msg_id (messages (render same_millisecond ?s)) =
     [js ''init'', toString 1700000000000, toString 1700000000000]"
    by (simp add: sa_live_fields)
  then show ?thesis by simp
qed


section \<open>The transcript\<close>

text \<open>The parts of the transcript pile up in the buffer in the order they arrive.\<close>

lemma transcript_accumulates:
  "transcriptBufferRef (aggregate_transcript m s) =
     transcriptBufferRef s @ (case transcriptPart m of None \<Rightarrow> [] | Some part \<Rightarrow> part)"
  "currentTranscript (aggregate_transcript m s) =
     (if truthy (transcriptPart m) then transcriptBufferRef s @ the (transcriptPart m)
      else currentTranscript s)"
  by (simp_all add: aggregate_transcript_def truthy_def Let_def split: option.splits)

text \<open>
  On \<open>turnComplete\<close> a buffer that is not all whitespace is flushed as one message, the
  speaker prefix followed by the whole buffer, and the buffer and the preview are
  emptied; a buffer of whitespace only stays as it is.
\<close>

lemma turnComplete_flushes:
  assumes "turnComplete m" and "trim (transcriptBufferRef s) \<noteq> []"
  shows "queued_since s (flush_on_turnComplete m s) = [append_model_text (speaker @ transcriptBufferRef s)]"
    and "append_model_text (speaker @ transcriptBufferRef s) rd buf prev =
           prev @ [model_message rd (speaker @ transcriptBufferRef s) None]"
    and "transcriptBufferRef (flush_on_turnComplete m s) = []"
    and "currentTranscript (flush_on_turnComplete m s) = []"
  using assms
  by (simp_all add: flush_on_turnComplete_def setMessages_def queued_since_def append_model_text_def)

lemma turnComplete_keeps_whitespace:
  assumes "trim (transcriptBufferRef s) = []"
  shows "flush_on_turnComplete m s = s"
  using assms by (simp add: flush_on_turnComplete_def)

text \<open>
  What \<open>stopLiveSession\<close> queues for a buffer that is not empty appends, at the render,
  the speaker prefix followed by the ref's value at that time, which is empty.
\<close>

lemma stop_flush_reads_emptied_ref:
  assumes "transcriptBufferRef s \<noteq> []" and "messageQueue s = []"
  shows "messages (render clk (sa_stopLiveSession s)) = messages s @ [model_message (clk 0) speaker None]"
proof -
  from assms have q: "messageQueue (sa_stopLiveSession s) = [append_pending_transcript]"
    and m: "messages (sa_stopLiveSession s) = messages s"
    and b: "transcriptBufferRef (sa_stopLiveSession s) = []"
    by (simp_all add: sa_stopLiveSession_upd)
  show ?thesis
    unfolding render_single[OF q] m b by (simp add: append_pending_transcript_def)
qed

lemma transcript_message_fields:
  "base64Audio (transcript_message part) = None" "\<not> turnComplete (transcript_message part)"
  "transcriptPart (transcript_message part) = Some (js part)" "toolCall (transcript_message part) = None"
  by (simp_all add: transcript_message_def)

lemma some_transcript: "js ''hi'' \<noteq> []"
  by (simp add: js_def)

text \<open>
  Claim C9 fails on the code in its last part.  \<open>stopLiveSession\<close> hands React an updater
  whose body reads \<open>transcriptBufferRef.current\<close>, and empties the ref in its next
  statement.  The updater runs at the next render, when the ref is already empty:
  the message it appends is the speaker prefix alone and the pending transcript is
  lost.  (The flush on \<open>turnComplete\<close> copies the buffer into \<open>fullText\<close> first and does
  not lose it.)  Here a live session has received the transcript part \<open>hi\<close>, the
  session is stopped and the component renders.
\<close>

theorem pending_transcript_lost_on_stop:
  "transcriptBufferRef (sa_handle (\<lambda>x. 5) (OnMessage 0 4 (transcript_message ''hi'')) sa_live) = js ''hi'' \<and>
   map msg_text (drop 1 (messages
     (sa_handle (\<lambda>x. 5) (Render same_millisecond)
       (sa_handle (\<lambda>x. 5) StopLiveSession
         (sa_handle (\<lambda>x. 5) (OnMessage 0 4 (transcript_message ''hi'')) sa_live))))) = [speaker] \<and>
   speaker \<noteq> speaker @ js ''hi''"
proof -
  let ?s1 = "sa_onmessage (\<lambda>x. 5) 0 4 (transcript_message ''hi'') sa_live"
  let ?s2 = "sa_stopLiveSession ?s1"
  have s1: "transcriptBufferRef ?s1 = js ''hi''" "messages ?s1 = messages sa_live" "messageQueue ?s1 = []"
    using sa_onmessage_queues[of sa_live "\<lambda>x. 5" 0 4 "transcript_message ''hi''"]
    by (simp_all add: sa_onmessage_def handle_toolCall_def flush_on_turnComplete_def
        transcript_accumulates schedule_audio_none truthy_def transcript_message_fields
        sa_live_fields queues_def)
  have s2: "messageQueue ?s2 = [append_pending_transcript]" "messages ?s2 = messages sa_live"
    "transcriptBufferRef ?s2 = []"
    using s1 by (simp_all add: sa_stopLiveSession_upd some_transcript)
  have "messages (render same_millisecond ?s2) =
          messages sa_live @ [model_message (same_millisecond 0) speaker None]"
    unfolding render_single[OF s2(1)] s2 by (simp add: append_pending_transcript_def)
  then have "map msg_text (drop 1 (messages (render same_millisecond ?s2))) = [speaker]"
    by (simp add: sa_live_fields model_message_def)
  with s1(1) show ?thesis by (simp add: some_transcript)
qed


section \<open>Errors\<close>

lemma lc_startSession_failed:
  assumes "getUserMedia env = Inl e \<or> (\<exists>ms. getUserMedia env = Inr ms \<and> connect env = Inl e)"
  shows "error (lc_startSession env s) = Some (or_else (message e) (js ''Failed to start session''))"
    and "lc_quiet (lc_startSession env s)"
    and "ctx_status (lc_startSession env s) (new_inputCtx env) = Closed"
    and "ctx_status (lc_startSession env s) (new_outputCtx env) = Closed"
    and "\<forall>ms. getUserMedia env = Inr ms \<longrightarrow> set (getTracks ms) \<subseteq> ended_tracks (lc_startSession env s)"
proof -
  from assms obtain s' where run: "lc_startSession env s = lc_stopSession s'"
    and s': "error s' = Some (or_else (message e) (js ''Failed to start session''))"
      "audioContextRef s' = Some (new_outputCtx env)" "inputContextRef s' = Some (new_inputCtx env)"
      "\<forall>ms. getUserMedia env = Inr ms \<longrightarrow> streamRef s' = Some ms"
    by (auto simp: lc_startSession_def Let_def)
  show "error (lc_startSession env s) = Some (or_else (message e) (js ''Failed to start session''))"
    using s' by (simp add: run lc_stopSession_upd)
  show "lc_quiet (lc_startSession env s)"
    by (simp add: run lc_quiet_stop)
  show "ctx_status (lc_startSession env s) (new_inputCtx env) = Closed"
    using s' by (simp add: run lc_stopSession_upd closed_by_teardown_def)
  show "ctx_status (lc_startSession env s) (new_outputCtx env) = Closed"
    using s' by (simp add: run lc_stopSession_upd closed_by_teardown_def)
  show "\<forall>ms. getUserMedia env = Inr ms \<longrightarrow> set (getTracks ms) \<subseteq> ended_tracks (lc_startSession env s)"
    using s' by (auto simp: run lc_stopSession_upd tracks_of_def)
qed

lemma sa_startLiveSession_failed:
  assumes "getUserMedia env = Inl e \<or> (\<exists>ms. getUserMedia env = Inr ms \<and> connect env = Inl e)"
  shows "torn_down (sa_startLiveSession env s)"
    and "\<not> isLive (sa_startLiveSession env s)"
    and "ctx_status (sa_startLiveSession env s) (new_inputCtx env) = Closed"
    and "ctx_status (sa_startLiveSession env s) (new_outputCtx env) = Closed"
    and "\<forall>ms. getUserMedia env = Inr ms \<longrightarrow> set (getTracks ms) \<subseteq> ended_tracks (sa_startLiveSession env s)"
proof -
  from assms obtain s' where run: "sa_startLiveSession env s = sa_stopLiveSession s'"
    and s': "audioContextRef s' = Some (new_outputCtx env)" "inputContextRef s' = Some (new_inputCtx env)"
      "\<forall>ms. getUserMedia env = Inr ms \<longrightarrow> streamRef s' = Some ms"
    by (auto simp: sa_startLiveSession_def Let_def)
  from sa_quiet_stop[of s'] show "torn_down (sa_startLiveSession env s)"
    "\<not> isLive (sa_startLiveSession env s)"
    by (simp_all add: run sa_quiet_def)
  show "ctx_status (sa_startLiveSession env s) (new_inputCtx env) = Closed"
    using s' by (simp add: run sa_stopLiveSession_upd closed_by_teardown_def)
  show "ctx_status (sa_startLiveSession env s) (new_outputCtx env) = Closed"
    using s' by (simp add: run sa_stopLiveSession_upd closed_by_teardown_def)
  show "\<forall>ms. getUserMedia env = Inr ms \<longrightarrow> set (getTracks ms) \<subseteq> ended_tracks (sa_startLiveSession env s)"
    using s' by (auto simp: run sa_stopLiveSession_upd tracks_of_def)
qed

lemma lc_onerror_tears_down:
  assumes "frameIntervalRef s \<noteq> Some 0"
  shows "error (lc_onerror s) = Some (js ''Connection Error'') \<and>
         media_released s (lc_onerror s) \<and> \<not> isActive (lc_onerror s)"
proof -
  let ?s = "s\<lparr>error := Some (js ''Connection Error'')\<rparr>"
  from assms have "frameIntervalRef ?s \<noteq> Some 0" by simp
  from lc_released[OF this] have "media_released ?s (lc_stopSession ?s)" "\<not> isActive (lc_stopSession ?s)"
    by simp_all
  moreover have "media_released ?s x = media_released s x" for x :: lc_state
    by (simp add: media_released_def new_close_calls_def)
  ultimately show ?thesis by (simp add: lc_onerror_def lc_stopSession_upd)
qed

lemma sa_onerror_tears_down:
  assumes "frameIntervalRef s \<noteq> Some 0"
  shows "media_released s (sa_onerror s) \<and> \<not> isLive (sa_onerror s)"
proof -
  let ?s = "s\<lparr>liveStatus := js ''Error''\<rparr>"
  from assms have "frameIntervalRef ?s \<noteq> Some 0" by simp
  from sa_released[OF this] have "media_released ?s (sa_stopLiveSession ?s)" "\<not> isLive (sa_stopLiveSession ?s)"
    by simp_all
  moreover have "media_released ?s x = media_released s x" for x :: sa_state
    by (simp add: media_released_def new_close_calls_def)
  ultimately show ?thesis by (simp add: sa_onerror_def)
qed

lemma screen_share_failed:
  assumes "getDisplayMedia env = Inl e"
  shows "lc_startScreenShare env s =
           s\<lparr>error := Some (js ''Screen share error: '' @
                              or_else (message e) (js ''Permission denied or cancelled''))\<rparr>"
    and "sa_startScreenShare env t =
           t\<lparr>messageQueue := messageQueue t @
                [append_model_text (js ''System: Screen share failed or was cancelled.'')]\<rparr>"
  using assms by (simp_all add: lc_startScreenShare_def sa_startScreenShare_def setMessages_def)

lemma generateContent_failed:
  "sa_generateContent_settled (Inl e) t =
     t\<lparr>messageQueue := messageQueue t @ [append_reply (js ''Error connecting to the API.'')],
       isLoading := False\<rparr>"
  by (simp add: sa_generateContent_settled_def setMessages_def)

text \<open>
  Claim C3, as amended.  A failure caught while a session starts (the microphone is
  refused, or connecting throws) and the session's \<open>onerror\<close> callback end in the full
  teardown: afterwards the component holds no stream, timer or source node, both
  audio contexts are closed, the tracks of a microphone stream already obtained are
  stopped and the session is not active; \<open>LiveCoach\<close> keeps the error text (the message
  of the exception, or its fixed text) in \<open>error\<close>.  A failure of screen sharing tears
  nothing down: \<open>LiveCoach\<close> only sets \<open>error\<close>, \<open>SetupAssistant\<close> only queues one model
  message with the fixed text, and the live session stays as it is.  A failed chat
  request only queues one model message and ends the loading state.  In each case
  the handler's result is this state; nothing is tried again.
\<close>

theorem errors_surface_and_tear_down:
  assumes "frameIntervalRef s \<noteq> Some 0" and "frameIntervalRef t \<noteq> Some 0"
  shows "(getUserMedia env = Inl e \<or> (\<exists>ms. getUserMedia env = Inr ms \<and> connect env = Inl e) \<longrightarrow>
            error (lc_startSession env s) = Some (or_else (message e) (js ''Failed to start session'')) \<and>
            lc_quiet (lc_startSession env s) \<and>
            ctx_status (lc_startSession env s) (new_inputCtx env) = Closed \<and>
            ctx_status (lc_startSession env s) (new_outputCtx env) = Closed \<and>
            (\<forall>ms. getUserMedia env = Inr ms \<longrightarrow> set (getTracks ms) \<subseteq> ended_tracks (lc_startSession env s)) \<and>
            torn_down (sa_startLiveSession env t) \<and> \<not> isLive (sa_startLiveSession env t) \<and>
            ctx_status (sa_startLiveSession env t) (new_inputCtx env) = Closed \<and>
            ctx_status (sa_startLiveSession env t) (new_outputCtx env) = Closed \<and>
            (\<forall>ms. getUserMedia env = Inr ms \<longrightarrow> set (getTracks ms) \<subseteq> ended_tracks (sa_startLiveSession env t))) \<and>
         error (lc_onerror s) = Some (js ''Connection Error'') \<and>
         media_released s (lc_onerror s) \<and> \<not> isActive (lc_onerror s) \<and>
         media_released t (sa_onerror t) \<and> \<not> isLive (sa_onerror t) \<and>
         (getDisplayMedia senv = Inl e' \<longrightarrow>
            lc_startScreenShare senv s =
              s\<lparr>error := Some (js ''Screen share error: '' @
                                 or_else (message e') (js ''Permission denied or cancelled''))\<rparr> \<and>
            sa_startScreenShare senv t =
              t\<lparr>messageQueue := messageQueue t @
                   [append_model_text (js ''System: Screen share failed or was cancelled.'')]\<rparr>) \<and>
         sa_generateContent_settled (Inl e'') t =
           t\<lparr>messageQueue := messageQueue t @ [append_reply (js ''Error connecting to the API.'')],
             isLoading := False\<rparr>"
proof -
  have start: "error (lc_startSession env s) = Some (or_else (message e) (js ''Failed to start session'')) \<and>
            lc_quiet (lc_startSession env s) \<and>
            ctx_status (lc_startSession env s) (new_inputCtx env) = Closed \<and>
            ctx_status (lc_startSession env s) (new_outputCtx env) = Closed \<and>
            (\<forall>ms. getUserMedia env = Inr ms \<longrightarrow> set (getTracks ms) \<subseteq> ended_tracks (lc_startSession env s)) \<and>
            torn_down (sa_startLiveSession env t) \<and> \<not> isLive (sa_startLiveSession env t) \<and>
            ctx_status (sa_startLiveSession env t) (new_inputCtx env) = Closed \<and>
            ctx_status (sa_startLiveSession env t) (new_outputCtx env) = Closed \<and>
            (\<forall>ms. getUserMedia env = Inr ms \<longrightarrow> set (getTracks ms) \<subseteq> ended_tracks (sa_startLiveSession env t))"
    if f: "getUserMedia env = Inl e \<or> (\<exists>ms. getUserMedia env = Inr ms \<and> connect env = Inl e)"
    using lc_startSession_failed[OF f] sa_startLiveSession_failed[OF f] by simp
  have share: "lc_startScreenShare senv s =
              s\<lparr>error := Some (js ''Screen share error: '' @
                                 or_else (message e') (js ''Permission denied or cancelled''))\<rparr> \<and>
            sa_startScreenShare senv t =
              t\<lparr>messageQueue := messageQueue t @
                   [append_model_text (js ''System: Screen share failed or was cancelled.'')]\<rparr>"
    if f: "getDisplayMedia senv = Inl e'"
    using screen_share_failed[OF f] by simp
  from start share lc_onerror_tears_down[OF assms(1)] sa_onerror_tears_down[OF assms(2)]
    generateContent_failed
  show ?thesis by blast
qed

lemma denied_fields:
  "getUserMedia mic_denied = Inl \<lparr>message = Some (js ''Permission denied'')\<rparr>"
  "new_inputCtx mic_denied = 20" "new_outputCtx mic_denied = 21"
  "getDisplayMedia share_denied = Inl \<lparr>message = Some (js ''Permission denied'')\<rparr>"
  by (simp_all add: mic_denied_def share_denied_def)

lemma permission_denied_text: "js ''Permission denied'' \<noteq> []"
  by (simp add: js_def)

theorem errors_surface_and_tear_down_witness:
  "frameIntervalRef lc_example \<noteq> Some 0 \<and> frameIntervalRef sa_example \<noteq> Some 0 \<and>
   getUserMedia mic_denied = Inl \<lparr>message = Some (js ''Permission denied'')\<rparr> \<and>
   getDisplayMedia share_denied = Inl \<lparr>message = Some (js ''Permission denied'')\<rparr> \<and>
   error (lc_startSession mic_denied lc_example) = Some (js ''Permission denied'') \<and>
   lc_quiet (lc_startSession mic_denied lc_example) \<and>
   ctx_status (lc_startSession mic_denied lc_example) 20 = Closed \<and>
   ctx_status (lc_startSession mic_denied lc_example) 21 = Closed \<and>
   torn_down (sa_startLiveSession mic_denied sa_example) \<and>
   error (lc_onerror lc_example) = Some (js ''Connection Error'') \<and>
   {1, 2} \<subseteq> ended_tracks (lc_onerror lc_example) \<and>
   {1, 2} \<subseteq> ended_tracks (sa_onerror sa_example) \<and>
   isActive (lc_startScreenShare share_denied lc_example) \<and>
   error (lc_startScreenShare share_denied lc_example) =
     Some (js ''Screen share error: '' @ js ''Permission denied'') \<and>
   isLive (sa_startScreenShare share_denied sa_example)"
proof -
  have h1: "frameIntervalRef lc_example \<noteq> Some 0" by (simp add: lc_example_fields)
  have h2: "frameIntervalRef sa_example \<noteq> Some 0" by (simp add: sa_example_fields)
  note h3 = denied_fields(1)
  note h4 = denied_fields(4)
  from errors_surface_and_tear_down[OF h1 h2, where env = mic_denied and senv = share_denied
      and e = "\<lparr>message = Some (js ''Permission denied'')\<rparr>"
      and e' = "\<lparr>message = Some (js ''Permission denied'')\<rparr>"] h1 h2 h3 h4
  show ?thesis
    by (simp add: denied_fields or_else_def permission_denied_text media_released_def
        lc_example_fields sa_example_fields tracks_of_def getTracks_def)
qed

text \<open>
  The claim as it was stated fails: when the screen-share prompt is refused during a
  live \<open>LiveCoach\<close> session, the catch block sets \<open>error\<close> and nothing else.  The session
  stays active, the microphone track is not stopped and the audio contexts stay open.
\<close>

theorem screen_share_failure_keeps_session:
  "getDisplayMedia share_denied = Inl \<lparr>message = Some (js ''Permission denied'')\<rparr> \<and>
   isActive (lc_startScreenShare share_denied lc_example) \<and>
   streamRef (lc_startScreenShare share_denied lc_example) = Some \<lparr>audio_tracks = [1], video_tracks = []\<rparr> \<and>
   1 \<notin> ended_tracks (lc_startScreenShare share_denied lc_example) \<and>
   ctx_status (lc_startScreenShare share_denied lc_example) 11 = Running \<and>
   \<not> media_released lc_example (lc_startScreenShare share_denied lc_example)"
  by (simp add: screen_share_failed(1)[OF denied_fields(4)] denied_fields lc_example_fields
      media_released_def)

end
